theory Spec2Isabelle
  imports Main
begin

section \<open>Shared vocabulary of the commands\<close>

text \<open>
  Every command of the repository has the same shape: an \<open>Exec\<close> method that resolves the
  service and version, calls one method of the API client, records failures in the error
  log and prints the answer. The resolver, the API client, the JSON encoder, the table
  writer and the helpers of \<open>pkg/cmd\<close>, \<open>pkg/errors\<close> and \<open>pkg/text\<close> are collaborators
  of the command files: they are parameters of the model (the record \<open>collaborators\<close>).
  What a run does to the outside is kept in the record \<open>world\<close>: the collaborator calls in
  order, the entries of the error log and the bytes written to \<open>out\<close>.
\<close>

subsection \<open>Errors\<close>

datatype error =
    ErrInvalidVerboseJSONCombo
  | Errorf string
  | RemoteError string

subsection \<open>Flags\<close>

text \<open>Modelled from the spec: the optional flag types of \<open>pkg/cmd\<close> (\<open>OptionalString\<close>,
  \<open>OptionalBool\<close>, \<open>OptionalInt\<close>, \<open>OptionalAutoClone\<close>, \<open>OptionalServiceNameID\<close>,
  \<open>OptionalServiceVersion\<close>) are not among the files at hand; each is a value together
  with the mark \<open>WasSet\<close> that tells "not provided" from "provided".\<close>

record 'a Optional =
  WasSet :: bool
  Value :: 'a

record config_Data =
  Flag_Verbose :: bool

text \<open>Modelled from the spec: \<open>config.Data.Verbose()\<close> of \<open>pkg/config\<close> is not among the
  files at hand; it answers whether the global \<open>--verbose\<close> flag is set, the flag the
  commands also read as \<open>Globals.Flag.Verbose\<close>.\<close>

definition Verbose :: "config_Data \<Rightarrow> bool" where
  "Verbose g = Flag_Verbose g"

record manifest_Data =
  Flag_ServiceID :: string

record Version =
  Number :: int

text \<open>\<open>cmd.Base\<close>, embedded in every command.\<close>

record Base =
  Globals :: config_Data

subsection \<open>The service and version resolver\<close>

text \<open>The options of \<open>cmd.ServiceDetails\<close>. The fields \<open>APIClient\<close> and \<open>Out\<close> are handles
  to the API client and to the output stream; a field that a struct literal leaves out
  has Go's zero value.\<close>

record ServiceDetailsOpts =
  AllowActiveLocked :: bool
  AutoCloneFlag :: "bool Optional"
  Manifest :: manifest_Data
  ServiceNameFlag :: "string Optional"
  ServiceVersionFlag :: "string Optional"
  VerboseMode :: bool

text \<open>The resolver answers \<open>(serviceID, serviceVersion, err)\<close>: with a nil error the version
  is there; with an error the version pointer may be nil.\<close>

datatype resolution =
    Resolved string Version
  | Unresolved string "Version option" error

subsection \<open>Decimal output of \<open>%d\<close>\<close>

fun decimal :: "nat \<Rightarrow> string" where
  "decimal n =
     (if n < 10 then [char_of (48 + n)]
      else decimal (n div 10) @ [char_of (48 + n mod 10)])"

declare decimal.simps [simp del]

definition fmt_d :: "int \<Rightarrow> string" where
  "fmt_d i = (if i < 0 then CHR ''-'' # decimal (nat (- i)) else decimal (nat i))"

definition NL :: string where
  "NL = [CHR 0x0A]"

definition TAB :: string where
  "TAB = [CHR 0x09]"

section \<open>VCL snippets: the update command\<close>

subsection \<open>Types of the API client\<close>

record UpdateSnippetInput =
  ServiceID :: string
  ServiceVersion :: int
  Name :: string
  NewName :: "string option"
  Priority :: "int option"
  Content :: "string option"
  Type :: "string option"

record UpdateDynamicSnippetInput =
  ID :: string
  ServiceID :: string
  Content :: "string option"

record Snippet =
  Name :: string
  ServiceID :: string
  ServiceVersion :: int
  Type :: string
  Priority :: int

record DynamicSnippet =
  ID :: string
  ServiceID :: string

record snippet_UpdateCommand = Base +
  autoClone :: "bool Optional"
  content :: "string Optional"
  dynamic :: "bool Optional"
  location :: "string Optional"
  manifest :: manifest_Data
  name :: string
  newName :: "string Optional"
  priority :: "int Optional"
  serviceName :: "string Optional"
  serviceVersion :: "string Optional"
  snippetID :: string

section \<open>Logging endpoints: the list and describe commands\<close>

subsection \<open>Types of the API client\<close>

record Splunk =
  ServiceID :: string
  ServiceVersion :: int
  Name :: string
  URL :: string
  Token :: string
  TLSCACert :: string
  TLSHostname :: string
  TLSClientCert :: string
  TLSClientKey :: string
  Format :: string
  FormatVersion :: nat
  ResponseCondition :: string
  Placement :: string

record Datadog =
  ServiceID :: string
  ServiceVersion :: int
  Name :: string
  Token :: string
  Region :: string
  Format :: string
  FormatVersion :: nat
  ResponseCondition :: string
  Placement :: string

record Loggly =
  ServiceID :: string
  ServiceVersion :: int
  Name :: string
  Token :: string
  Format :: string
  FormatVersion :: nat
  ResponseCondition :: string
  Placement :: string

record FTP =
  ServiceID :: string
  ServiceVersion :: int
  Name :: string
  Address :: string
  Port :: nat
  Username :: string
  Password :: string
  PublicKey :: string
  Path :: string
  Period :: nat
  GzipLevel :: nat
  Format :: string
  FormatVersion :: nat
  ResponseCondition :: string
  TimestampFormat :: string
  Placement :: string
  CompressionCodec :: string

record ListSplunksInput =
  ServiceID :: string
  ServiceVersion :: int

record ListDatadogInput =
  ServiceID :: string
  ServiceVersion :: int

record ListLogglyInput =
  ServiceID :: string
  ServiceVersion :: int

record GetFTPInput =
  ServiceID :: string
  ServiceVersion :: int
  Name :: string

subsection \<open>The command structs\<close>

record splunk_ListCommand = Base +
  manifest :: manifest_Data
  Input :: ListSplunksInput
  json :: bool
  serviceName :: "string Optional"
  serviceVersion :: "string Optional"

record datadog_ListCommand = Base +
  manifest :: manifest_Data
  Input :: ListDatadogInput
  json :: bool
  serviceName :: "string Optional"
  serviceVersion :: "string Optional"

record loggly_ListCommand = Base +
  manifest :: manifest_Data
  Input :: ListLogglyInput
  json :: bool
  serviceName :: "string Optional"
  serviceVersion :: "string Optional"

record ftp_DescribeCommand = Base +
  manifest :: manifest_Data
  Input :: GetFTPInput
  json :: bool
  serviceName :: "string Optional"
  serviceVersion :: "string Optional"

section \<open>Collaborators and the observable world\<close>

text \<open>The argument of \<open>json.Marshal\<close>, one case for each type the commands encode.\<close>

datatype json_arg =
    JSplunks "Splunk list"
  | JDatadogs "Datadog list"
  | JLogglys "Loggly list"
  | JFTP FTP

text \<open>Modelled from the spec: the table writer of \<open>pkg/text\<close> is not among the files at
  hand. A table is kept as the commands fill it, the arguments of \<open>AddHeader\<close> and of each
  \<open>AddLine\<close> in call order; \<open>Print\<close>, which lays the rows out as the tabular summary, is a
  collaborator (\<open>Table_Print\<close> below).\<close>

datatype cell = CellS string | CellI int

datatype row = Header "cell list" | Line "cell list"

definition NewTable :: "row list" where
  "NewTable = []"

definition AddHeader :: "cell list \<Rightarrow> row list \<Rightarrow> row list" where
  "AddHeader args tw = tw @ [Header args]"

definition AddLine :: "cell list \<Rightarrow> row list \<Rightarrow> row list" where
  "AddLine args tw = tw @ [Line args]"

text \<open>Calls that leave the command, as they appear in a run. The world keeps each call
  together with the error it returned (\<open>None\<close> for Go's nil).\<close>

datatype call =
    ServiceDetails_call ServiceDetailsOpts
  | ListSplunks_call ListSplunksInput
  | ListDatadog_call ListDatadogInput
  | ListLoggly_call ListLogglyInput
  | GetFTP_call GetFTPInput
  | UpdateSnippet_call UpdateSnippetInput
  | UpdateDynamicSnippet_call UpdateDynamicSnippetInput

text \<open>Entries of the error log: \<open>ErrLog.Add(err)\<close> and \<open>ErrLog.AddWithContext(err, ctx)\<close>,
  the context being a Go map from field names to values.\<close>

datatype ctx_value = CtxS string | CtxI int

datatype log_entry =
    Add error
  | AddWithContext error "string \<Rightarrow> ctx_value option"

record world =
  calls :: "(call \<times> error option) list"
  ErrLog :: "log_entry list"
  out :: string

record collaborators =
  ServiceDetails :: "ServiceDetailsOpts \<Rightarrow> resolution \<times> string"
  errors_ServiceVersion :: "Version option \<Rightarrow> int"
  ListSplunks :: "ListSplunksInput \<Rightarrow> error + Splunk list"
  ListDatadog :: "ListDatadogInput \<Rightarrow> error + Datadog list"
  ListLoggly :: "ListLogglyInput \<Rightarrow> error + Loggly list"
  GetFTP :: "GetFTPInput \<Rightarrow> error + FTP"
  UpdateSnippet :: "UpdateSnippetInput \<Rightarrow> error + Snippet"
  UpdateDynamicSnippet :: "UpdateDynamicSnippetInput \<Rightarrow> error + DynamicSnippet"
  json_Marshal :: "json_arg \<Rightarrow> error + string"
  Table_Print :: "row list \<Rightarrow> string"
  text_Success :: "string \<Rightarrow> string"
  cmd_Content :: "string \<Rightarrow> string"

text \<open>The second component of \<open>ServiceDetails\<close> is what the resolver itself wrote to \<open>out\<close>
  (it is handed the stream and the verbose flag).\<close>

fun resolution_error :: "resolution \<Rightarrow> error option" where
  "resolution_error (Resolved serviceID sv) = None"
| "resolution_error (Unresolved serviceID sv err) = Some err"

fun result_error :: "error + 'a \<Rightarrow> error option" where
  "result_error (Inl err) = Some err"
| "result_error (Inr v) = None"

definition invoke :: "call \<Rightarrow> error option \<Rightarrow> world \<Rightarrow> world" where
  "invoke k r w = w\<lparr>calls := calls w @ [(k, r)]\<rparr>"

definition record_error :: "log_entry \<Rightarrow> world \<Rightarrow> world" where
  "record_error e w = w\<lparr>ErrLog := ErrLog w @ [e]\<rparr>"

definition Fprint :: "string \<Rightarrow> world \<Rightarrow> world" where
  "Fprint t w = w\<lparr>out := out w @ t\<rparr>"

section \<open>The snippet update command\<close>

text \<open>\<open>constructDynamicInput\<close>: the zero-valued input gets the snippet ID and the service
  ID, then the flags are checked in the order of the source. The version
  number (the parameter \<open>serviceVersion\<close> of the source, here \<open>number\<close>) is received
  and not used.\<close>

definition constructDynamicInput ::
  "collaborators \<Rightarrow> snippet_UpdateCommand \<Rightarrow> string \<Rightarrow> int \<Rightarrow> error + UpdateDynamicSnippetInput"
where
  "constructDynamicInput env c serviceID number =
     (let input = \<lparr>UpdateDynamicSnippetInput.ID = snippetID c,
                    UpdateDynamicSnippetInput.ServiceID = serviceID,
                    UpdateDynamicSnippetInput.Content = None\<rparr>
      in if WasSet (newName c) then
           Inl (Errorf ''error parsing arguments: --new-name is not supported when updating a dynamic VCL snippet'')
         else if snippetID c = [] then
           Inl (Errorf ''error parsing arguments: must provide --snippet-id to update a dynamic VCL snippet'')
         else
           Inr (if WasSet (content c)
                then input\<lparr>UpdateDynamicSnippetInput.Content :=
                              Some (cmd_Content env (Value (content c)))\<rparr>
                else input))"

definition constructInput ::
  "collaborators \<Rightarrow> snippet_UpdateCommand \<Rightarrow> string \<Rightarrow> int \<Rightarrow> error + UpdateSnippetInput"
where
  "constructInput env c serviceID number =
     (let input = \<lparr>UpdateSnippetInput.ServiceID = serviceID,
                    UpdateSnippetInput.ServiceVersion = number,
                    UpdateSnippetInput.Name = name c,
                    UpdateSnippetInput.NewName = None,
                    UpdateSnippetInput.Priority = None,
                    UpdateSnippetInput.Content = None,
                    UpdateSnippetInput.Type = None\<rparr>
      in if snippetID c \<noteq> [] then
           Inl (Errorf ''error parsing arguments: --snippet-id is not supported when updating a versioned VCL snippet'')
         else if name c = [] then
           Inl (Errorf ''error parsing arguments: must provide --name to update a versioned VCL snippet'')
         else
           (let input1 = (if WasSet (newName c)
                          then input\<lparr>UpdateSnippetInput.NewName := Some (Value (newName c))\<rparr>
                          else input);
                input2 = (if WasSet (priority c)
                          then input1\<lparr>UpdateSnippetInput.Priority := Some (Value (priority c))\<rparr>
                          else input1);
                input3 = (if WasSet (content c)
                          then input2\<lparr>UpdateSnippetInput.Content :=
                                          Some (cmd_Content env (Value (content c)))\<rparr>
                          else input2);
                input4 = (if WasSet (location c)
                          then input3\<lparr>UpdateSnippetInput.Type := Some (Value (location c))\<rparr>
                          else input3)
            in Inr input4))"

text \<open>The context map of the error log entries.\<close>

definition service_context :: "string \<Rightarrow> int \<Rightarrow> string \<Rightarrow> ctx_value option" where
  "service_context serviceID number =
     [''Service ID'' \<mapsto> CtxS serviceID, ''Service Version'' \<mapsto> CtxI number]"

definition dynamic_success_message :: "DynamicSnippet \<Rightarrow> string" where
  "dynamic_success_message v =
     ''Updated dynamic VCL snippet '' @ [CHR 0x27] @ DynamicSnippet.ID v @ [CHR 0x27]
       @ '' (service: '' @ DynamicSnippet.ServiceID v @ '')''"

definition versioned_success_message :: "Snippet \<Rightarrow> UpdateSnippetInput \<Rightarrow> string" where
  "versioned_success_message v input =
     ''Updated VCL snippet '' @ [CHR 0x27] @ Snippet.Name v @ [CHR 0x27]
       @ '' (previously: '' @ [CHR 0x27] @ UpdateSnippetInput.Name input @ [CHR 0x27]
       @ '', service: '' @ Snippet.ServiceID v
       @ '', version: '' @ fmt_d (Snippet.ServiceVersion v)
       @ '', type: '' @ Snippet.Type v
       @ '', priority: '' @ fmt_d (Snippet.Priority v) @ '')''"

definition snippet_Update_opts :: "snippet_UpdateCommand \<Rightarrow> ServiceDetailsOpts" where
  "snippet_Update_opts c =
     \<lparr>AllowActiveLocked = False,
      AutoCloneFlag = autoClone c,
      Manifest = snippet_UpdateCommand.manifest c,
      ServiceNameFlag = snippet_UpdateCommand.serviceName c,
      ServiceVersionFlag = snippet_UpdateCommand.serviceVersion c,
      VerboseMode = Flag_Verbose (Globals c)\<rparr>"

definition snippet_Update_Exec ::
  "collaborators \<Rightarrow> snippet_UpdateCommand \<Rightarrow> world \<Rightarrow> error option \<times> world"
where
  "snippet_Update_Exec env c w =
     (let opts = snippet_Update_opts c;
          w1 = invoke (ServiceDetails_call opts)
                 (resolution_error (fst (ServiceDetails env opts))) w
      in case ServiceDetails env opts of
           (Unresolved serviceID sv err, written) \<Rightarrow>
             (Some err,
              record_error
                (AddWithContext err (service_context serviceID (errors_ServiceVersion env sv)))
                (Fprint written w1))
         | (Resolved serviceID sv, written) \<Rightarrow>
             (let w2 = Fprint written w1 in
              if WasSet (dynamic c) then
                (case constructDynamicInput env c serviceID (Number sv) of
                   Inl err \<Rightarrow>
                     (Some err,
                      record_error (AddWithContext err (service_context serviceID (Number sv))) w2)
                 | Inr input \<Rightarrow>
                     (let w3 = invoke (UpdateDynamicSnippet_call input)
                                 (result_error (UpdateDynamicSnippet env input)) w2
                      in case UpdateDynamicSnippet env input of
                           Inl err \<Rightarrow>
                             (Some err,
                              record_error
                                (AddWithContext err (service_context serviceID (Number sv))) w3)
                         | Inr v \<Rightarrow>
                             (None, Fprint (text_Success env (dynamic_success_message v)) w3)))
              else
                (case constructInput env c serviceID (Number sv) of
                   Inl err \<Rightarrow>
                     (Some err,
                      record_error (AddWithContext err (service_context serviceID (Number sv))) w2)
                 | Inr input \<Rightarrow>
                     (let w3 = invoke (UpdateSnippet_call input)
                                 (result_error (UpdateSnippet env input)) w2
                      in case UpdateSnippet env input of
                           Inl err \<Rightarrow>
                             (Some err,
                              record_error
                                (AddWithContext err (service_context serviceID (Number sv))) w3)
                         | Inr v \<Rightarrow>
                             (None,
                              Fprint (text_Success env (versioned_success_message v input)) w3)))))"

section \<open>The list commands\<close>

subsection \<open>Splunk: the list command\<close>

definition splunk_List_opts :: "splunk_ListCommand \<Rightarrow> ServiceDetailsOpts" where
  "splunk_List_opts c =
     \<lparr>AllowActiveLocked = True,
      AutoCloneFlag = \<lparr>WasSet = False, Value = False\<rparr>,
      Manifest = splunk_ListCommand.manifest c,
      ServiceNameFlag = splunk_ListCommand.serviceName c,
      ServiceVersionFlag = splunk_ListCommand.serviceVersion c,
      VerboseMode = Flag_Verbose (Globals c)\<rparr>"

text \<open>One pass of the verbose loop, for the endpoint at index \<open>i\<close> of \<open>n\<close>.\<close>

definition splunk_block :: "nat \<Rightarrow> nat \<Rightarrow> Splunk \<Rightarrow> string" where
  "splunk_block i n splunk =
     TAB @ ''Splunk '' @ fmt_d (int i + 1) @ ''/'' @ fmt_d (int n) @ NL
       @ TAB @ TAB @ ''Service ID: '' @ Splunk.ServiceID splunk @ NL
       @ TAB @ TAB @ ''Version: '' @ fmt_d (Splunk.ServiceVersion splunk) @ NL
       @ TAB @ TAB @ ''Name: '' @ Splunk.Name splunk @ NL
       @ TAB @ TAB @ ''URL: '' @ Splunk.URL splunk @ NL
       @ TAB @ TAB @ ''Token: '' @ Splunk.Token splunk @ NL
       @ TAB @ TAB @ ''TLS CA certificate: '' @ Splunk.TLSCACert splunk @ NL
       @ TAB @ TAB @ ''TLS hostname: '' @ Splunk.TLSHostname splunk @ NL
       @ TAB @ TAB @ ''TLS client certificate: '' @ Splunk.TLSClientCert splunk @ NL
       @ TAB @ TAB @ ''TLS client key: '' @ Splunk.TLSClientKey splunk @ NL
       @ TAB @ TAB @ ''Format: '' @ Splunk.Format splunk @ NL
       @ TAB @ TAB @ ''Format version: '' @ decimal (Splunk.FormatVersion splunk) @ NL
       @ TAB @ TAB @ ''Response condition: '' @ Splunk.ResponseCondition splunk @ NL
       @ TAB @ TAB @ ''Placement: '' @ Splunk.Placement splunk @ NL"

fun splunk_blocks :: "nat \<Rightarrow> nat \<Rightarrow> Splunk list \<Rightarrow> string" where
  "splunk_blocks i n [] = []"
| "splunk_blocks i n (splunk # rest) = splunk_block i n splunk @ splunk_blocks (Suc i) n rest"

text \<open>The loop that fills the table.\<close>

fun splunk_lines :: "Splunk list \<Rightarrow> row list \<Rightarrow> row list" where
  "splunk_lines [] tw = tw"
| "splunk_lines (splunk # rest) tw =
     splunk_lines rest
       (AddLine [CellS (Splunk.ServiceID splunk), CellI (Splunk.ServiceVersion splunk),
                 CellS (Splunk.Name splunk)] tw)"

text \<open>The input of the API call: the command's \<open>Input\<close> with the resolved service ID
  and version number stored in it.\<close>

definition splunk_List_input :: "splunk_ListCommand \<Rightarrow> string \<Rightarrow> Version \<Rightarrow> ListSplunksInput" where
  "splunk_List_input c serviceID sv =
     (splunk_ListCommand.Input c)
       \<lparr>ListSplunksInput.ServiceID := serviceID, ListSplunksInput.ServiceVersion := Number sv\<rparr>"

definition splunk_List_Exec ::
  "collaborators \<Rightarrow> splunk_ListCommand \<Rightarrow> world \<Rightarrow> error option \<times> world"
where
  "splunk_List_Exec env c w =
     (if Verbose (Globals c) \<and> splunk_ListCommand.json c then (Some ErrInvalidVerboseJSONCombo, w)
      else
        (let opts = splunk_List_opts c;
             w1 = invoke (ServiceDetails_call opts)
                 (resolution_error (fst (ServiceDetails env opts))) w
         in case ServiceDetails env opts of
              (Unresolved serviceID sv err, written) \<Rightarrow>
                (Some err,
                 record_error
                   (AddWithContext err (service_context serviceID (errors_ServiceVersion env sv)))
                   (Fprint written w1))
            | (Resolved serviceID sv, written) \<Rightarrow>
                (let input = splunk_List_input c serviceID sv;
                     w2 = invoke (ListSplunks_call input) (result_error (ListSplunks env input))
                            (Fprint written w1)
                 in case ListSplunks env input of
                      Inl err \<Rightarrow> (Some err, record_error (Add err) w2)
                    | Inr splunks \<Rightarrow>
                        if \<not> Verbose (Globals c) then
                          (if splunk_ListCommand.json c then
                             (case json_Marshal env (JSplunks splunks) of
                                Inl err \<Rightarrow> (Some err, w2)
                              | Inr data \<Rightarrow> (None, Fprint data w2))
                           else
                             (None,
                              Fprint
                                (Table_Print env
                                   (splunk_lines splunks
                                      (AddHeader [CellS ''SERVICE'', CellS ''VERSION'', CellS ''NAME'']
                                         NewTable)))
                                w2))
                        else
                          (None,
                           Fprint NL
                             (Fprint (splunk_blocks 0 (length splunks) splunks)
                                (Fprint (''Version: '' @ fmt_d (ListSplunksInput.ServiceVersion input) @ NL)
                                   w2))))))"

subsection \<open>Datadog: the list command\<close>

definition datadog_List_opts :: "datadog_ListCommand \<Rightarrow> ServiceDetailsOpts" where
  "datadog_List_opts c =
     \<lparr>AllowActiveLocked = True,
      AutoCloneFlag = \<lparr>WasSet = False, Value = False\<rparr>,
      Manifest = datadog_ListCommand.manifest c,
      ServiceNameFlag = datadog_ListCommand.serviceName c,
      ServiceVersionFlag = datadog_ListCommand.serviceVersion c,
      VerboseMode = Flag_Verbose (Globals c)\<rparr>"

text \<open>One pass of the verbose loop, for the endpoint at index \<open>i\<close> of \<open>n\<close>.\<close>

definition datadog_block :: "nat \<Rightarrow> nat \<Rightarrow> Datadog \<Rightarrow> string" where
  "datadog_block i n datadog =
     TAB @ ''Datadog '' @ fmt_d (int i + 1) @ ''/'' @ fmt_d (int n) @ NL
       @ TAB @ TAB @ ''Service ID: '' @ Datadog.ServiceID datadog @ NL
       @ TAB @ TAB @ ''Version: '' @ fmt_d (Datadog.ServiceVersion datadog) @ NL
       @ TAB @ TAB @ ''Name: '' @ Datadog.Name datadog @ NL
       @ TAB @ TAB @ ''Token: '' @ Datadog.Token datadog @ NL
       @ TAB @ TAB @ ''Region: '' @ Datadog.Region datadog @ NL
       @ TAB @ TAB @ ''Format: '' @ Datadog.Format datadog @ NL
       @ TAB @ TAB @ ''Format version: '' @ decimal (Datadog.FormatVersion datadog) @ NL
       @ TAB @ TAB @ ''Response condition: '' @ Datadog.ResponseCondition datadog @ NL
       @ TAB @ TAB @ ''Placement: '' @ Datadog.Placement datadog @ NL"

fun datadog_blocks :: "nat \<Rightarrow> nat \<Rightarrow> Datadog list \<Rightarrow> string" where
  "datadog_blocks i n [] = []"
| "datadog_blocks i n (datadog # rest) = datadog_block i n datadog @ datadog_blocks (Suc i) n rest"

text \<open>The loop that fills the table.\<close>

fun datadog_lines :: "Datadog list \<Rightarrow> row list \<Rightarrow> row list" where
  "datadog_lines [] tw = tw"
| "datadog_lines (datadog # rest) tw =
     datadog_lines rest
       (AddLine [CellS (Datadog.ServiceID datadog), CellI (Datadog.ServiceVersion datadog),
                 CellS (Datadog.Name datadog)] tw)"

text \<open>The input of the API call: the command's \<open>Input\<close> with the resolved service ID
  and version number stored in it.\<close>

definition datadog_List_input :: "datadog_ListCommand \<Rightarrow> string \<Rightarrow> Version \<Rightarrow> ListDatadogInput" where
  "datadog_List_input c serviceID sv =
     (datadog_ListCommand.Input c)
       \<lparr>ListDatadogInput.ServiceID := serviceID, ListDatadogInput.ServiceVersion := Number sv\<rparr>"

definition datadog_List_Exec ::
  "collaborators \<Rightarrow> datadog_ListCommand \<Rightarrow> world \<Rightarrow> error option \<times> world"
where
  "datadog_List_Exec env c w =
     (if Verbose (Globals c) \<and> datadog_ListCommand.json c then (Some ErrInvalidVerboseJSONCombo, w)
      else
        (let opts = datadog_List_opts c;
             w1 = invoke (ServiceDetails_call opts)
                 (resolution_error (fst (ServiceDetails env opts))) w
         in case ServiceDetails env opts of
              (Unresolved serviceID sv err, written) \<Rightarrow>
                (Some err,
                 record_error
                   (AddWithContext err (service_context serviceID (errors_ServiceVersion env sv)))
                   (Fprint written w1))
            | (Resolved serviceID sv, written) \<Rightarrow>
                (let input = datadog_List_input c serviceID sv;
                     w2 = invoke (ListDatadog_call input) (result_error (ListDatadog env input))
                            (Fprint written w1)
                 in case ListDatadog env input of
                      Inl err \<Rightarrow> (Some err, record_error (Add err) w2)
                    | Inr datadogs \<Rightarrow>
                        if \<not> Verbose (Globals c) then
                          (if datadog_ListCommand.json c then
                             (case json_Marshal env (JDatadogs datadogs) of
                                Inl err \<Rightarrow> (Some err, w2)
                              | Inr data \<Rightarrow> (None, Fprint data w2))
                           else
                             (None,
                              Fprint
                                (Table_Print env
                                   (datadog_lines datadogs
                                      (AddHeader [CellS ''SERVICE'', CellS ''VERSION'', CellS ''NAME'']
                                         NewTable)))
                                w2))
                        else
                          (None,
                           Fprint NL
                             (Fprint (datadog_blocks 0 (length datadogs) datadogs)
                                (Fprint (''Version: '' @ fmt_d (ListDatadogInput.ServiceVersion input) @ NL)
                                   w2))))))"

subsection \<open>Loggly: the list command\<close>

definition loggly_List_opts :: "loggly_ListCommand \<Rightarrow> ServiceDetailsOpts" where
  "loggly_List_opts c =
     \<lparr>AllowActiveLocked = True,
      AutoCloneFlag = \<lparr>WasSet = False, Value = False\<rparr>,
      Manifest = loggly_ListCommand.manifest c,
      ServiceNameFlag = loggly_ListCommand.serviceName c,
      ServiceVersionFlag = loggly_ListCommand.serviceVersion c,
      VerboseMode = Flag_Verbose (Globals c)\<rparr>"

text \<open>One pass of the verbose loop, for the endpoint at index \<open>i\<close> of \<open>n\<close>.\<close>

definition loggly_block :: "nat \<Rightarrow> nat \<Rightarrow> Loggly \<Rightarrow> string" where
  "loggly_block i n loggly =
     TAB @ ''Loggly '' @ fmt_d (int i + 1) @ ''/'' @ fmt_d (int n) @ NL
       @ TAB @ TAB @ ''Service ID: '' @ Loggly.ServiceID loggly @ NL
       @ TAB @ TAB @ ''Version: '' @ fmt_d (Loggly.ServiceVersion loggly) @ NL
       @ TAB @ TAB @ ''Name: '' @ Loggly.Name loggly @ NL
       @ TAB @ TAB @ ''Token: '' @ Loggly.Token loggly @ NL
       @ TAB @ TAB @ ''Format: '' @ Loggly.Format loggly @ NL
       @ TAB @ TAB @ ''Format version: '' @ decimal (Loggly.FormatVersion loggly) @ NL
       @ TAB @ TAB @ ''Response condition: '' @ Loggly.ResponseCondition loggly @ NL
       @ TAB @ TAB @ ''Placement: '' @ Loggly.Placement loggly @ NL"

fun loggly_blocks :: "nat \<Rightarrow> nat \<Rightarrow> Loggly list \<Rightarrow> string" where
  "loggly_blocks i n [] = []"
| "loggly_blocks i n (loggly # rest) = loggly_block i n loggly @ loggly_blocks (Suc i) n rest"

text \<open>The loop that fills the table.\<close>

fun loggly_lines :: "Loggly list \<Rightarrow> row list \<Rightarrow> row list" where
  "loggly_lines [] tw = tw"
| "loggly_lines (loggly # rest) tw =
     loggly_lines rest
       (AddLine [CellS (Loggly.ServiceID loggly), CellI (Loggly.ServiceVersion loggly),
                 CellS (Loggly.Name loggly)] tw)"

text \<open>The input of the API call: the command's \<open>Input\<close> with the resolved service ID
  and version number stored in it.\<close>

definition loggly_List_input :: "loggly_ListCommand \<Rightarrow> string \<Rightarrow> Version \<Rightarrow> ListLogglyInput" where
  "loggly_List_input c serviceID sv =
     (loggly_ListCommand.Input c)
       \<lparr>ListLogglyInput.ServiceID := serviceID, ListLogglyInput.ServiceVersion := Number sv\<rparr>"

definition loggly_List_Exec ::
  "collaborators \<Rightarrow> loggly_ListCommand \<Rightarrow> world \<Rightarrow> error option \<times> world"
where
  "loggly_List_Exec env c w =
     (if Verbose (Globals c) \<and> loggly_ListCommand.json c then (Some ErrInvalidVerboseJSONCombo, w)
      else
        (let opts = loggly_List_opts c;
             w1 = invoke (ServiceDetails_call opts)
                 (resolution_error (fst (ServiceDetails env opts))) w
         in case ServiceDetails env opts of
              (Unresolved serviceID sv err, written) \<Rightarrow>
                (Some err,
                 record_error
                   (AddWithContext err (service_context serviceID (errors_ServiceVersion env sv)))
                   (Fprint written w1))
            | (Resolved serviceID sv, written) \<Rightarrow>
                (let input = loggly_List_input c serviceID sv;
                     w2 = invoke (ListLoggly_call input) (result_error (ListLoggly env input))
                            (Fprint written w1)
                 in case ListLoggly env input of
                      Inl err \<Rightarrow> (Some err, record_error (Add err) w2)
                    | Inr logglys \<Rightarrow>
                        if \<not> Verbose (Globals c) then
                          (if loggly_ListCommand.json c then
                             (case json_Marshal env (JLogglys logglys) of
                                Inl err \<Rightarrow> (Some err, w2)
                              | Inr data \<Rightarrow> (None, Fprint data w2))
                           else
                             (None,
                              Fprint
                                (Table_Print env
                                   (loggly_lines logglys
                                      (AddHeader [CellS ''SERVICE'', CellS ''VERSION'', CellS ''NAME'']
                                         NewTable)))
                                w2))
                        else
                          (None,
                           Fprint NL
                             (Fprint (loggly_blocks 0 (length logglys) logglys)
                                (Fprint (''Version: '' @ fmt_d (ListLogglyInput.ServiceVersion input) @ NL)
                                   w2))))))"

section \<open>FTP: the describe command\<close>

definition ftp_Describe_opts :: "ftp_DescribeCommand \<Rightarrow> ServiceDetailsOpts" where
  "ftp_Describe_opts c =
     \<lparr>AllowActiveLocked = True,
      AutoCloneFlag = \<lparr>WasSet = False, Value = False\<rparr>,
      Manifest = ftp_DescribeCommand.manifest c,
      ServiceNameFlag = ftp_DescribeCommand.serviceName c,
      ServiceVersionFlag = ftp_DescribeCommand.serviceVersion c,
      VerboseMode = Flag_Verbose (Globals c)\<rparr>"

text \<open>The line that is printed only outside verbose mode.\<close>

definition ftp_service_line :: "FTP \<Rightarrow> string" where
  "ftp_service_line ftp = NL @ ''Service ID: '' @ FTP.ServiceID ftp @ NL"

text \<open>The lines from \<open>Version\<close> to \<open>Compression codec\<close>.\<close>

definition ftp_field_lines :: "FTP \<Rightarrow> string" where
  "ftp_field_lines ftp =
       ''Version: '' @ fmt_d (FTP.ServiceVersion ftp) @ NL
     @ ''Name: '' @ FTP.Name ftp @ NL
     @ ''Address: '' @ FTP.Address ftp @ NL
     @ ''Port: '' @ decimal (FTP.Port ftp) @ NL
     @ ''Username: '' @ FTP.Username ftp @ NL
     @ ''Password: '' @ FTP.Password ftp @ NL
     @ ''Public key: '' @ FTP.PublicKey ftp @ NL
     @ ''Path: '' @ FTP.Path ftp @ NL
     @ ''Period: '' @ decimal (FTP.Period ftp) @ NL
     @ ''GZip level: '' @ decimal (FTP.GzipLevel ftp) @ NL
     @ ''Format: '' @ FTP.Format ftp @ NL
     @ ''Format version: '' @ decimal (FTP.FormatVersion ftp) @ NL
     @ ''Response condition: '' @ FTP.ResponseCondition ftp @ NL
     @ ''Timestamp format: '' @ FTP.TimestampFormat ftp @ NL
     @ ''Placement: '' @ FTP.Placement ftp @ NL
     @ ''Compression codec: '' @ FTP.CompressionCodec ftp @ NL"

text \<open>The input of the API call: the command's \<open>Input\<close> with the resolved service ID
  and version number stored in it.\<close>

definition ftp_Describe_input :: "ftp_DescribeCommand \<Rightarrow> string \<Rightarrow> Version \<Rightarrow> GetFTPInput" where
  "ftp_Describe_input c serviceID sv =
     (ftp_DescribeCommand.Input c)
       \<lparr>GetFTPInput.ServiceID := serviceID, GetFTPInput.ServiceVersion := Number sv\<rparr>"

definition ftp_Describe_Exec ::
  "collaborators \<Rightarrow> ftp_DescribeCommand \<Rightarrow> world \<Rightarrow> error option \<times> world"
where
  "ftp_Describe_Exec env c w =
     (if Verbose (Globals c) \<and> ftp_DescribeCommand.json c then (Some ErrInvalidVerboseJSONCombo, w)
      else
        (let opts = ftp_Describe_opts c;
             w1 = invoke (ServiceDetails_call opts)
                 (resolution_error (fst (ServiceDetails env opts))) w
         in case ServiceDetails env opts of
              (Unresolved serviceID sv err, written) \<Rightarrow>
                (Some err,
                 record_error
                   (AddWithContext err (service_context serviceID (errors_ServiceVersion env sv)))
                   (Fprint written w1))
            | (Resolved serviceID sv, written) \<Rightarrow>
                (let input = ftp_Describe_input c serviceID sv;
                     w2 = invoke (GetFTP_call input) (result_error (GetFTP env input))
                            (Fprint written w1)
                 in case GetFTP env input of
                      Inl err \<Rightarrow> (Some err, record_error (Add err) w2)
                    | Inr ftp \<Rightarrow>
                        if ftp_DescribeCommand.json c then
                          (case json_Marshal env (JFTP ftp) of
                             Inl err \<Rightarrow> (Some err, w2)
                           | Inr data \<Rightarrow> (None, Fprint data w2))
                        else
                          (let w3 = (if \<not> Verbose (Globals c)
                                     then Fprint (ftp_service_line ftp) w2 else w2)
                           in (None, Fprint (ftp_field_lines ftp) w3)))))"

section \<open>All commands\<close>

text \<open>The commands implement one interface with the method \<open>Exec\<close>. The update command
  registers no \<open>--json\<close> flag and its struct has no such field.\<close>

datatype command =
    SplunkList splunk_ListCommand
  | DatadogList datadog_ListCommand
  | LogglyList loggly_ListCommand
  | FTPDescribe ftp_DescribeCommand
  | SnippetUpdate snippet_UpdateCommand

fun Exec :: "collaborators \<Rightarrow> command \<Rightarrow> world \<Rightarrow> error option \<times> world" where
  "Exec env (SplunkList c) w = splunk_List_Exec env c w"
| "Exec env (DatadogList c) w = datadog_List_Exec env c w"
| "Exec env (LogglyList c) w = loggly_List_Exec env c w"
| "Exec env (FTPDescribe c) w = ftp_Describe_Exec env c w"
| "Exec env (SnippetUpdate c) w = snippet_Update_Exec env c w"

fun verbose_flag :: "command \<Rightarrow> bool" where
  "verbose_flag (SplunkList c) = Flag_Verbose (Globals c)"
| "verbose_flag (DatadogList c) = Flag_Verbose (Globals c)"
| "verbose_flag (LogglyList c) = Flag_Verbose (Globals c)"
| "verbose_flag (FTPDescribe c) = Flag_Verbose (Globals c)"
| "verbose_flag (SnippetUpdate c) = Flag_Verbose (Globals c)"

text \<open>The \<open>--json\<close> flag of a command, where the command has one.\<close>

fun json_flag :: "command \<Rightarrow> bool option" where
  "json_flag (SplunkList c) = Some (splunk_ListCommand.json c)"
| "json_flag (DatadogList c) = Some (datadog_ListCommand.json c)"
| "json_flag (LogglyList c) = Some (loggly_ListCommand.json c)"
| "json_flag (FTPDescribe c) = Some (ftp_DescribeCommand.json c)"
| "json_flag (SnippetUpdate c) = None"

text \<open>The commands registered as \<open>list\<close> and \<open>describe\<close> only read; \<open>update\<close> changes
  the service.\<close>

fun read_only :: "command \<Rightarrow> bool" where
  "read_only (SnippetUpdate c) = False"
| "read_only _ = True"

section \<open>Reading a run\<close>

text \<open>The calls a run added to the world, and among calls those of the resolver and those
  of the two snippet update methods.\<close>

definition new_calls :: "world \<Rightarrow> world \<Rightarrow> (call \<times> error option) list" where
  "new_calls w w' = drop (length (calls w)) (calls w')"

definition new_log :: "world \<Rightarrow> world \<Rightarrow> log_entry list" where
  "new_log w w' = drop (length (ErrLog w)) (ErrLog w')"

fun entry_error :: "log_entry \<Rightarrow> error" where
  "entry_error (Add err) = err"
| "entry_error (AddWithContext err ctx) = err"

fun resolver_calls :: "(call \<times> error option) list \<Rightarrow> ServiceDetailsOpts list" where
  "resolver_calls [] = []"
| "resolver_calls ((ServiceDetails_call opts, r) # ks) = opts # resolver_calls ks"
| "resolver_calls (k # ks) = resolver_calls ks"

fun is_UpdateSnippet_call :: "call \<Rightarrow> bool" where
  "is_UpdateSnippet_call (UpdateSnippet_call i) = True"
| "is_UpdateSnippet_call k = False"

fun is_UpdateDynamicSnippet_call :: "call \<Rightarrow> bool" where
  "is_UpdateDynamicSnippet_call (UpdateDynamicSnippet_call i) = True"
| "is_UpdateDynamicSnippet_call k = False"



section \<open>Sample collaborators and commands\<close>

text \<open>Concrete values on which the theorems below are instantiated: a service \<open>svc1\<close> at
  version 3 with one endpoint of each kind, and collaborators that answer without error.\<close>

definition demo_splunk :: Splunk where
  "demo_splunk =
     \<lparr>Splunk.ServiceID = ''svc1'', Splunk.ServiceVersion = 3, Splunk.Name = ''logs'',
      Splunk.URL = ''https://splunk.example'', Splunk.Token = ''tok'', Splunk.TLSCACert = [],
      Splunk.TLSHostname = [], Splunk.TLSClientCert = [], Splunk.TLSClientKey = [],
      Splunk.Format = ''%h'', Splunk.FormatVersion = 2, Splunk.ResponseCondition = [],
      Splunk.Placement = []\<rparr>"

definition demo_datadog :: Datadog where
  "demo_datadog =
     \<lparr>Datadog.ServiceID = ''svc1'', Datadog.ServiceVersion = 3, Datadog.Name = ''logs'',
      Datadog.Token = ''tok'', Datadog.Region = ''US'', Datadog.Format = ''%h'',
      Datadog.FormatVersion = 2, Datadog.ResponseCondition = [], Datadog.Placement = []\<rparr>"

definition demo_loggly :: Loggly where
  "demo_loggly =
     \<lparr>Loggly.ServiceID = ''svc1'', Loggly.ServiceVersion = 3, Loggly.Name = ''logs'',
      Loggly.Token = ''tok'', Loggly.Format = ''%h'', Loggly.FormatVersion = 2,
      Loggly.ResponseCondition = [], Loggly.Placement = []\<rparr>"

definition demo_ftp :: FTP where
  "demo_ftp =
     \<lparr>FTP.ServiceID = ''svc1'', FTP.ServiceVersion = 3, FTP.Name = ''logs'',
      FTP.Address = ''ftp.example'', FTP.Port = 21, FTP.Username = ''u'', FTP.Password = ''p'',
      FTP.PublicKey = [], FTP.Path = ''/logs'', FTP.Period = 3600, FTP.GzipLevel = 0,
      FTP.Format = ''%h'', FTP.FormatVersion = 2, FTP.ResponseCondition = [],
      FTP.TimestampFormat = [], FTP.Placement = [], FTP.CompressionCodec = []\<rparr>"

fun demo_cell :: "cell \<Rightarrow> string" where
  "demo_cell (CellS t) = t"
| "demo_cell (CellI i) = fmt_d i"

fun demo_row :: "row \<Rightarrow> string" where
  "demo_row (Header cs) = concat (map (\<lambda>x. demo_cell x @ '' '') cs) @ NL"
| "demo_row (Line cs) = concat (map (\<lambda>x. demo_cell x @ '' '') cs) @ NL"

definition demo_collaborators :: collaborators where
  "demo_collaborators =
     \<lparr>ServiceDetails = (\<lambda>opts. (Resolved ''svc1'' \<lparr>Number = 3\<rparr>, [])),
      errors_ServiceVersion = (\<lambda>v. case v of None \<Rightarrow> 0 | Some x \<Rightarrow> Number x),
      ListSplunks = (\<lambda>i. Inr [demo_splunk]),
      ListDatadog = (\<lambda>i. Inr [demo_datadog]),
      ListLoggly = (\<lambda>i. Inr [demo_loggly]),
      GetFTP = (\<lambda>i. Inr demo_ftp),
      UpdateSnippet =
        (\<lambda>i. Inr \<lparr>Snippet.Name = (case UpdateSnippetInput.NewName i of
                                       None \<Rightarrow> UpdateSnippetInput.Name i | Some n \<Rightarrow> n),
                     Snippet.ServiceID = UpdateSnippetInput.ServiceID i,
                     Snippet.ServiceVersion = UpdateSnippetInput.ServiceVersion i,
                     Snippet.Type = ''recv'', Snippet.Priority = 100\<rparr>),
      UpdateDynamicSnippet =
        (\<lambda>i. Inr \<lparr>DynamicSnippet.ID = UpdateDynamicSnippetInput.ID i,
                     DynamicSnippet.ServiceID = UpdateDynamicSnippetInput.ServiceID i\<rparr>),
      json_Marshal = (\<lambda>a. Inr ''[]''),
      Table_Print = (\<lambda>tw. concat (map demo_row tw)),
      text_Success = (\<lambda>m. ''SUCCESS: '' @ m @ NL),
      cmd_Content = (\<lambda>t. t)\<rparr>"

text \<open>The same collaborators with a resolver that fails, and with API methods that fail.\<close>

definition demo_unresolved :: collaborators where
  "demo_unresolved =
     demo_collaborators
       \<lparr>ServiceDetails := (\<lambda>opts. (Unresolved ''svc1'' None (RemoteError ''no such version''), []))\<rparr>"

definition demo_api_down :: collaborators where
  "demo_api_down =
     demo_collaborators
       \<lparr>ListSplunks := (\<lambda>i. Inl (RemoteError ''503'')),
        ListDatadog := (\<lambda>i. Inl (RemoteError ''503'')),
        ListLoggly := (\<lambda>i. Inl (RemoteError ''503'')),
        GetFTP := (\<lambda>i. Inl (RemoteError ''503'')),
        UpdateSnippet := (\<lambda>i. Inl (RemoteError ''503'')),
        UpdateDynamicSnippet := (\<lambda>i. Inl (RemoteError ''503''))\<rparr>"

definition demo_no_endpoints :: collaborators where
  "demo_no_endpoints =
     demo_collaborators
       \<lparr>ListSplunks := (\<lambda>i. Inr []),
        ListDatadog := (\<lambda>i. Inr []),
        ListLoggly := (\<lambda>i. Inr [])\<rparr>"

definition demo_world :: world where
  "demo_world = \<lparr>calls = [], ErrLog = [], out = []\<rparr>"

definition demo_splunk_list :: splunk_ListCommand where
  "demo_splunk_list =
     \<lparr>Globals = \<lparr>Flag_Verbose = False\<rparr>,
      splunk_ListCommand.manifest = \<lparr>Flag_ServiceID = ''svc1''\<rparr>,
      splunk_ListCommand.Input = \<lparr>ListSplunksInput.ServiceID = [], ListSplunksInput.ServiceVersion = 0\<rparr>,
      splunk_ListCommand.json = False,
      splunk_ListCommand.serviceName = \<lparr>WasSet = False, Value = []\<rparr>,
      splunk_ListCommand.serviceVersion = \<lparr>WasSet = False, Value = ''3''\<rparr>\<rparr>"

definition demo_datadog_list :: datadog_ListCommand where
  "demo_datadog_list =
     \<lparr>Globals = \<lparr>Flag_Verbose = False\<rparr>,
      datadog_ListCommand.manifest = \<lparr>Flag_ServiceID = ''svc1''\<rparr>,
      datadog_ListCommand.Input = \<lparr>ListDatadogInput.ServiceID = [], ListDatadogInput.ServiceVersion = 0\<rparr>,
      datadog_ListCommand.json = False,
      datadog_ListCommand.serviceName = \<lparr>WasSet = False, Value = []\<rparr>,
      datadog_ListCommand.serviceVersion = \<lparr>WasSet = False, Value = ''3''\<rparr>\<rparr>"

definition demo_loggly_list :: loggly_ListCommand where
  "demo_loggly_list =
     \<lparr>Globals = \<lparr>Flag_Verbose = False\<rparr>,
      loggly_ListCommand.manifest = \<lparr>Flag_ServiceID = ''svc1''\<rparr>,
      loggly_ListCommand.Input = \<lparr>ListLogglyInput.ServiceID = [], ListLogglyInput.ServiceVersion = 0\<rparr>,
      loggly_ListCommand.json = False,
      loggly_ListCommand.serviceName = \<lparr>WasSet = False, Value = []\<rparr>,
      loggly_ListCommand.serviceVersion = \<lparr>WasSet = False, Value = ''3''\<rparr>\<rparr>"

definition demo_ftp_describe :: ftp_DescribeCommand where
  "demo_ftp_describe =
     \<lparr>Globals = \<lparr>Flag_Verbose = False\<rparr>,
      ftp_DescribeCommand.manifest = \<lparr>Flag_ServiceID = ''svc1''\<rparr>,
      ftp_DescribeCommand.Input = \<lparr>GetFTPInput.ServiceID = [], GetFTPInput.ServiceVersion = 0, GetFTPInput.Name = ''logs''\<rparr>,
      ftp_DescribeCommand.json = False,
      ftp_DescribeCommand.serviceName = \<lparr>WasSet = False, Value = []\<rparr>,
      ftp_DescribeCommand.serviceVersion = \<lparr>WasSet = False, Value = ''3''\<rparr>\<rparr>"

text \<open>\<open>snippet update --version 3 --name recv_hook\<close>, and its variants.\<close>

definition demo_update :: snippet_UpdateCommand where
  "demo_update =
     \<lparr>Globals = \<lparr>Flag_Verbose = False\<rparr>,
      autoClone = \<lparr>WasSet = True, Value = True\<rparr>,
      content = \<lparr>WasSet = False, Value = []\<rparr>,
      dynamic = \<lparr>WasSet = False, Value = False\<rparr>,
      location = \<lparr>WasSet = False, Value = []\<rparr>,
      snippet_UpdateCommand.manifest = \<lparr>Flag_ServiceID = ''svc1''\<rparr>,
      name = ''recv_hook'',
      newName = \<lparr>WasSet = False, Value = []\<rparr>,
      priority = \<lparr>WasSet = False, Value = 0\<rparr>,
      snippet_UpdateCommand.serviceName = \<lparr>WasSet = False, Value = []\<rparr>,
      snippet_UpdateCommand.serviceVersion = \<lparr>WasSet = False, Value = ''3''\<rparr>,
      snippetID = []\<rparr>"

definition demo_update_dynamic :: snippet_UpdateCommand where
  "demo_update_dynamic =
     demo_update\<lparr>dynamic := \<lparr>WasSet = True, Value = True\<rparr>, name := [], snippetID := ''abc123'',
                 content := \<lparr>WasSet = True, Value = ''set req.http.X = 1;''\<rparr>\<rparr>"




section \<open>Reading the world after each primitive step\<close>

lemma calls_step [simp]:
  "calls (record_error e w) = calls w"
  "calls (Fprint t w) = calls w"
  "calls (invoke k r w) = calls w @ [(k, r)]"
  by (simp_all add: record_error_def Fprint_def invoke_def)

lemma ErrLog_step [simp]:
  "ErrLog (record_error e w) = ErrLog w @ [e]"
  "ErrLog (Fprint t w) = ErrLog w"
  "ErrLog (invoke k r w) = ErrLog w"
  by (simp_all add: record_error_def Fprint_def invoke_def)

lemma out_step [simp]:
  "out (record_error e w) = out w"
  "out (Fprint t w) = out w @ t"
  "out (invoke k r w) = out w"
  by (simp_all add: record_error_def Fprint_def invoke_def)

lemma new_calls_extend: "calls w' = calls w @ ks \<Longrightarrow> new_calls w w' = ks"
  by (simp add: new_calls_def)

lemma new_log_extend: "ErrLog w' = ErrLog w @ es \<Longrightarrow> new_log w w' = es"
  by (simp add: new_log_def)

lemma new_calls_same [simp]: "new_calls w w = []"
  by (simp add: new_calls_def)

lemma new_log_same [simp]: "new_log w w = []"
  by (simp add: new_log_def)

subsection \<open>Splunk list: the run, case by case\<close>

lemma splunk_List_input_version:
  "ListSplunksInput.ServiceVersion (splunk_List_input c sid sv) = Number sv"
  by (simp add: splunk_List_input_def)

lemma splunk_List_gate:
  "Verbose (Globals c) \<Longrightarrow> splunk_ListCommand.json c \<Longrightarrow>
   splunk_List_Exec env c w = (Some ErrInvalidVerboseJSONCombo, w)"
  by (simp add: splunk_List_Exec_def)

lemma splunk_List_unresolved:
  assumes "\<not> (Verbose (Globals c) \<and> splunk_ListCommand.json c)"
    and "ServiceDetails env (splunk_List_opts c) = (Unresolved sid sv err, txt)"
  shows "splunk_List_Exec env c w =
     (Some err,
      record_error (AddWithContext err (service_context sid (errors_ServiceVersion env sv)))
        (Fprint txt (invoke (ServiceDetails_call (splunk_List_opts c)) (Some err) w)))"
  using assms by (auto simp add: splunk_List_Exec_def)

lemma splunk_List_api_error:
  assumes "\<not> (Verbose (Globals c) \<and> splunk_ListCommand.json c)"
    and "ServiceDetails env (splunk_List_opts c) = (Resolved sid sv, txt)"
    and "ListSplunks env (splunk_List_input c sid sv) = Inl err"
  shows "splunk_List_Exec env c w =
     (Some err,
      record_error (Add err)
        (invoke (ListSplunks_call (splunk_List_input c sid sv)) (Some err)
          (Fprint txt (invoke (ServiceDetails_call (splunk_List_opts c)) None w))))"
  using assms by (auto simp add: splunk_List_Exec_def Let_def)

lemma splunk_lines_rows:
  "splunk_lines xs tw =
     tw @ map (\<lambda>x. Line [CellS (Splunk.ServiceID x), CellI (Splunk.ServiceVersion x),
                           CellS (Splunk.Name x)]) xs"
  by (induction xs arbitrary: tw) (simp_all add: AddLine_def)

lemma splunk_blocks_enumerate:
  "splunk_blocks i n xs = concat (map (\<lambda>(j, x). splunk_block j n x) (enumerate i xs))"
  by (induction xs arbitrary: i) simp_all

lemma splunk_List_ok:
  assumes "\<not> (Verbose (Globals c) \<and> splunk_ListCommand.json c)"
    and "ServiceDetails env (splunk_List_opts c) = (Resolved sid sv, txt)"
    and "ListSplunks env (splunk_List_input c sid sv) = Inr xs"
  shows "splunk_List_Exec env c w =
     (let w2 = invoke (ListSplunks_call (splunk_List_input c sid sv)) None
                 (Fprint txt (invoke (ServiceDetails_call (splunk_List_opts c)) None w))
      in if Verbose (Globals c) then
           (None, Fprint NL (Fprint (splunk_blocks 0 (length xs) xs)
              (Fprint (''Version: '' @ fmt_d (Number sv) @ NL) w2)))
         else if splunk_ListCommand.json c then
           (case json_Marshal env (JSplunks xs) of
              Inl err \<Rightarrow> (Some err, w2)
            | Inr data \<Rightarrow> (None, Fprint data w2))
         else
           (None, Fprint (Table_Print env (splunk_lines xs
              (AddHeader [CellS ''SERVICE'', CellS ''VERSION'', CellS ''NAME''] NewTable))) w2))"
  using assms
  by (auto simp add: splunk_List_Exec_def Let_def splunk_List_input_version split: sum.splits)

lemma splunk_List_ok_world:
  assumes "\<not> (Verbose (Globals c) \<and> splunk_ListCommand.json c)"
    and "ServiceDetails env (splunk_List_opts c) = (Resolved sid sv, txt)"
    and "ListSplunks env (splunk_List_input c sid sv) = Inr xs"
  shows "calls (snd (splunk_List_Exec env c w)) =
           calls w @ [(ServiceDetails_call (splunk_List_opts c), None),
                      (ListSplunks_call (splunk_List_input c sid sv), None)]"
    and "ErrLog (snd (splunk_List_Exec env c w)) = ErrLog w"
  unfolding splunk_List_ok[OF assms] by (simp_all add: Let_def split: sum.splits)

lemma splunk_List_error_recorded:
  assumes "(k, Some err) \<in> set (new_calls w (snd (splunk_List_Exec env c w)))"
  shows "fst (splunk_List_Exec env c w) = Some err \<and>
         (\<exists>entry. new_log w (snd (splunk_List_Exec env c w)) = [entry] \<and> entry_error entry = err \<and>
            (\<forall>opts. k = ServiceDetails_call opts \<longrightarrow>
               (\<exists>sid sv txt. ServiceDetails env opts = (Unresolved sid sv err, txt) \<and>
                  entry = AddWithContext err
                            (service_context sid (errors_ServiceVersion env sv)))))"
proof (cases "Verbose (Globals c) \<and> splunk_ListCommand.json c")
  case True
  with assms show ?thesis by (simp add: splunk_List_gate)
next
  case False
  obtain r wr where sd: "ServiceDetails env (splunk_List_opts c) = (r, wr)"
    by (cases "ServiceDetails env (splunk_List_opts c)")
  show ?thesis
  proof (cases r)
    case (Unresolved sid sv e)
    with assms False sd show ?thesis
      by (auto simp add: splunk_List_unresolved new_calls_extend new_log_extend)
  next
    case (Resolved sid sv)
    note res = sd[unfolded Resolved]
    show ?thesis
    proof (cases "ListSplunks env (splunk_List_input c sid sv)")
      case (Inl e)
      with assms False res show ?thesis
        by (auto simp add: splunk_List_api_error new_calls_extend new_log_extend)
    next
      case (Inr xs)
      with assms False res show ?thesis
        by (simp add: splunk_List_ok_world new_calls_extend)
    qed
  qed
qed

lemma splunk_List_resolver_calls:
  "resolver_calls (new_calls w (snd (splunk_List_Exec env c w))) =
     (if Verbose (Globals c) \<and> splunk_ListCommand.json c then [] else [splunk_List_opts c])"
proof (cases "Verbose (Globals c) \<and> splunk_ListCommand.json c")
  case True
  then show ?thesis by (simp add: splunk_List_gate)
next
  case False
  obtain r wr where sd: "ServiceDetails env (splunk_List_opts c) = (r, wr)"
    by (cases "ServiceDetails env (splunk_List_opts c)")
  show ?thesis
  proof (cases r)
    case (Unresolved sid sv e)
    with False sd show ?thesis
      by (simp add: splunk_List_unresolved new_calls_extend)
  next
    case (Resolved sid sv)
    note res = sd[unfolded Resolved]
    show ?thesis
    proof (cases "ListSplunks env (splunk_List_input c sid sv)")
      case (Inl e)
      with False res show ?thesis
        by (simp add: splunk_List_api_error new_calls_extend)
    next
      case (Inr xs)
      with False res show ?thesis
        by (simp add: splunk_List_ok_world new_calls_extend)
    qed
  qed
qed

subsection \<open>Datadog list: the run, case by case\<close>

lemma datadog_List_input_version:
  "ListDatadogInput.ServiceVersion (datadog_List_input c sid sv) = Number sv"
  by (simp add: datadog_List_input_def)

lemma datadog_List_gate:
  "Verbose (Globals c) \<Longrightarrow> datadog_ListCommand.json c \<Longrightarrow>
   datadog_List_Exec env c w = (Some ErrInvalidVerboseJSONCombo, w)"
  by (simp add: datadog_List_Exec_def)

lemma datadog_List_unresolved:
  assumes "\<not> (Verbose (Globals c) \<and> datadog_ListCommand.json c)"
    and "ServiceDetails env (datadog_List_opts c) = (Unresolved sid sv err, txt)"
  shows "datadog_List_Exec env c w =
     (Some err,
      record_error (AddWithContext err (service_context sid (errors_ServiceVersion env sv)))
        (Fprint txt (invoke (ServiceDetails_call (datadog_List_opts c)) (Some err) w)))"
  using assms by (auto simp add: datadog_List_Exec_def)

lemma datadog_List_api_error:
  assumes "\<not> (Verbose (Globals c) \<and> datadog_ListCommand.json c)"
    and "ServiceDetails env (datadog_List_opts c) = (Resolved sid sv, txt)"
    and "ListDatadog env (datadog_List_input c sid sv) = Inl err"
  shows "datadog_List_Exec env c w =
     (Some err,
      record_error (Add err)
        (invoke (ListDatadog_call (datadog_List_input c sid sv)) (Some err)
          (Fprint txt (invoke (ServiceDetails_call (datadog_List_opts c)) None w))))"
  using assms by (auto simp add: datadog_List_Exec_def Let_def)

lemma datadog_lines_rows:
  "datadog_lines xs tw =
     tw @ map (\<lambda>x. Line [CellS (Datadog.ServiceID x), CellI (Datadog.ServiceVersion x),
                           CellS (Datadog.Name x)]) xs"
  by (induction xs arbitrary: tw) (simp_all add: AddLine_def)

lemma datadog_blocks_enumerate:
  "datadog_blocks i n xs = concat (map (\<lambda>(j, x). datadog_block j n x) (enumerate i xs))"
  by (induction xs arbitrary: i) simp_all

lemma datadog_List_ok:
  assumes "\<not> (Verbose (Globals c) \<and> datadog_ListCommand.json c)"
    and "ServiceDetails env (datadog_List_opts c) = (Resolved sid sv, txt)"
    and "ListDatadog env (datadog_List_input c sid sv) = Inr xs"
  shows "datadog_List_Exec env c w =
     (let w2 = invoke (ListDatadog_call (datadog_List_input c sid sv)) None
                 (Fprint txt (invoke (ServiceDetails_call (datadog_List_opts c)) None w))
      in if Verbose (Globals c) then
           (None, Fprint NL (Fprint (datadog_blocks 0 (length xs) xs)
              (Fprint (''Version: '' @ fmt_d (Number sv) @ NL) w2)))
         else if datadog_ListCommand.json c then
           (case json_Marshal env (JDatadogs xs) of
              Inl err \<Rightarrow> (Some err, w2)
            | Inr data \<Rightarrow> (None, Fprint data w2))
         else
           (None, Fprint (Table_Print env (datadog_lines xs
              (AddHeader [CellS ''SERVICE'', CellS ''VERSION'', CellS ''NAME''] NewTable))) w2))"
  using assms
  by (auto simp add: datadog_List_Exec_def Let_def datadog_List_input_version split: sum.splits)

lemma datadog_List_ok_world:
  assumes "\<not> (Verbose (Globals c) \<and> datadog_ListCommand.json c)"
    and "ServiceDetails env (datadog_List_opts c) = (Resolved sid sv, txt)"
    and "ListDatadog env (datadog_List_input c sid sv) = Inr xs"
  shows "calls (snd (datadog_List_Exec env c w)) =
           calls w @ [(ServiceDetails_call (datadog_List_opts c), None),
                      (ListDatadog_call (datadog_List_input c sid sv), None)]"
    and "ErrLog (snd (datadog_List_Exec env c w)) = ErrLog w"
  unfolding datadog_List_ok[OF assms] by (simp_all add: Let_def split: sum.splits)

lemma datadog_List_error_recorded:
  assumes "(k, Some err) \<in> set (new_calls w (snd (datadog_List_Exec env c w)))"
  shows "fst (datadog_List_Exec env c w) = Some err \<and>
         (\<exists>entry. new_log w (snd (datadog_List_Exec env c w)) = [entry] \<and> entry_error entry = err \<and>
            (\<forall>opts. k = ServiceDetails_call opts \<longrightarrow>
               (\<exists>sid sv txt. ServiceDetails env opts = (Unresolved sid sv err, txt) \<and>
                  entry = AddWithContext err
                            (service_context sid (errors_ServiceVersion env sv)))))"
proof (cases "Verbose (Globals c) \<and> datadog_ListCommand.json c")
  case True
  with assms show ?thesis by (simp add: datadog_List_gate)
next
  case False
  obtain r wr where sd: "ServiceDetails env (datadog_List_opts c) = (r, wr)"
    by (cases "ServiceDetails env (datadog_List_opts c)")
  show ?thesis
  proof (cases r)
    case (Unresolved sid sv e)
    with assms False sd show ?thesis
      by (auto simp add: datadog_List_unresolved new_calls_extend new_log_extend)
  next
    case (Resolved sid sv)
    note res = sd[unfolded Resolved]
    show ?thesis
    proof (cases "ListDatadog env (datadog_List_input c sid sv)")
      case (Inl e)
      with assms False res show ?thesis
        by (auto simp add: datadog_List_api_error new_calls_extend new_log_extend)
    next
      case (Inr xs)
      with assms False res show ?thesis
        by (simp add: datadog_List_ok_world new_calls_extend)
    qed
  qed
qed

lemma datadog_List_resolver_calls:
  "resolver_calls (new_calls w (snd (datadog_List_Exec env c w))) =
     (if Verbose (Globals c) \<and> datadog_ListCommand.json c then [] else [datadog_List_opts c])"
proof (cases "Verbose (Globals c) \<and> datadog_ListCommand.json c")
  case True
  then show ?thesis by (simp add: datadog_List_gate)
next
  case False
  obtain r wr where sd: "ServiceDetails env (datadog_List_opts c) = (r, wr)"
    by (cases "ServiceDetails env (datadog_List_opts c)")
  show ?thesis
  proof (cases r)
    case (Unresolved sid sv e)
    with False sd show ?thesis
      by (simp add: datadog_List_unresolved new_calls_extend)
  next
    case (Resolved sid sv)
    note res = sd[unfolded Resolved]
    show ?thesis
    proof (cases "ListDatadog env (datadog_List_input c sid sv)")
      case (Inl e)
      with False res show ?thesis
        by (simp add: datadog_List_api_error new_calls_extend)
    next
      case (Inr xs)
      with False res show ?thesis
        by (simp add: datadog_List_ok_world new_calls_extend)
    qed
  qed
qed

subsection \<open>Loggly list: the run, case by case\<close>

lemma loggly_List_input_version:
  "ListLogglyInput.ServiceVersion (loggly_List_input c sid sv) = Number sv"
  by (simp add: loggly_List_input_def)

lemma loggly_List_gate:
  "Verbose (Globals c) \<Longrightarrow> loggly_ListCommand.json c \<Longrightarrow>
   loggly_List_Exec env c w = (Some ErrInvalidVerboseJSONCombo, w)"
  by (simp add: loggly_List_Exec_def)

lemma loggly_List_unresolved:
  assumes "\<not> (Verbose (Globals c) \<and> loggly_ListCommand.json c)"
    and "ServiceDetails env (loggly_List_opts c) = (Unresolved sid sv err, txt)"
  shows "loggly_List_Exec env c w =
     (Some err,
      record_error (AddWithContext err (service_context sid (errors_ServiceVersion env sv)))
        (Fprint txt (invoke (ServiceDetails_call (loggly_List_opts c)) (Some err) w)))"
  using assms by (auto simp add: loggly_List_Exec_def)

lemma loggly_List_api_error:
  assumes "\<not> (Verbose (Globals c) \<and> loggly_ListCommand.json c)"
    and "ServiceDetails env (loggly_List_opts c) = (Resolved sid sv, txt)"
    and "ListLoggly env (loggly_List_input c sid sv) = Inl err"
  shows "loggly_List_Exec env c w =
     (Some err,
      record_error (Add err)
        (invoke (ListLoggly_call (loggly_List_input c sid sv)) (Some err)
          (Fprint txt (invoke (ServiceDetails_call (loggly_List_opts c)) None w))))"
  using assms by (auto simp add: loggly_List_Exec_def Let_def)

lemma loggly_lines_rows:
  "loggly_lines xs tw =
     tw @ map (\<lambda>x. Line [CellS (Loggly.ServiceID x), CellI (Loggly.ServiceVersion x),
                           CellS (Loggly.Name x)]) xs"
  by (induction xs arbitrary: tw) (simp_all add: AddLine_def)

lemma loggly_blocks_enumerate:
  "loggly_blocks i n xs = concat (map (\<lambda>(j, x). loggly_block j n x) (enumerate i xs))"
  by (induction xs arbitrary: i) simp_all

lemma loggly_List_ok:
  assumes "\<not> (Verbose (Globals c) \<and> loggly_ListCommand.json c)"
    and "ServiceDetails env (loggly_List_opts c) = (Resolved sid sv, txt)"
    and "ListLoggly env (loggly_List_input c sid sv) = Inr xs"
  shows "loggly_List_Exec env c w =
     (let w2 = invoke (ListLoggly_call (loggly_List_input c sid sv)) None
                 (Fprint txt (invoke (ServiceDetails_call (loggly_List_opts c)) None w))
      in if Verbose (Globals c) then
           (None, Fprint NL (Fprint (loggly_blocks 0 (length xs) xs)
              (Fprint (''Version: '' @ fmt_d (Number sv) @ NL) w2)))
         else if loggly_ListCommand.json c then
           (case json_Marshal env (JLogglys xs) of
              Inl err \<Rightarrow> (Some err, w2)
            | Inr data \<Rightarrow> (None, Fprint data w2))
         else
           (None, Fprint (Table_Print env (loggly_lines xs
              (AddHeader [CellS ''SERVICE'', CellS ''VERSION'', CellS ''NAME''] NewTable))) w2))"
  using assms
  by (auto simp add: loggly_List_Exec_def Let_def loggly_List_input_version split: sum.splits)

lemma loggly_List_ok_world:
  assumes "\<not> (Verbose (Globals c) \<and> loggly_ListCommand.json c)"
    and "ServiceDetails env (loggly_List_opts c) = (Resolved sid sv, txt)"
    and "ListLoggly env (loggly_List_input c sid sv) = Inr xs"
  shows "calls (snd (loggly_List_Exec env c w)) =
           calls w @ [(ServiceDetails_call (loggly_List_opts c), None),
                      (ListLoggly_call (loggly_List_input c sid sv), None)]"
    and "ErrLog (snd (loggly_List_Exec env c w)) = ErrLog w"
  unfolding loggly_List_ok[OF assms] by (simp_all add: Let_def split: sum.splits)

lemma loggly_List_error_recorded:
  assumes "(k, Some err) \<in> set (new_calls w (snd (loggly_List_Exec env c w)))"
  shows "fst (loggly_List_Exec env c w) = Some err \<and>
         (\<exists>entry. new_log w (snd (loggly_List_Exec env c w)) = [entry] \<and> entry_error entry = err \<and>
            (\<forall>opts. k = ServiceDetails_call opts \<longrightarrow>
               (\<exists>sid sv txt. ServiceDetails env opts = (Unresolved sid sv err, txt) \<and>
                  entry = AddWithContext err
                            (service_context sid (errors_ServiceVersion env sv)))))"
proof (cases "Verbose (Globals c) \<and> loggly_ListCommand.json c")
  case True
  with assms show ?thesis by (simp add: loggly_List_gate)
next
  case False
  obtain r wr where sd: "ServiceDetails env (loggly_List_opts c) = (r, wr)"
    by (cases "ServiceDetails env (loggly_List_opts c)")
  show ?thesis
  proof (cases r)
    case (Unresolved sid sv e)
    with assms False sd show ?thesis
      by (auto simp add: loggly_List_unresolved new_calls_extend new_log_extend)
  next
    case (Resolved sid sv)
    note res = sd[unfolded Resolved]
    show ?thesis
    proof (cases "ListLoggly env (loggly_List_input c sid sv)")
      case (Inl e)
      with assms False res show ?thesis
        by (auto simp add: loggly_List_api_error new_calls_extend new_log_extend)
    next
      case (Inr xs)
      with assms False res show ?thesis
        by (simp add: loggly_List_ok_world new_calls_extend)
    qed
  qed
qed

lemma loggly_List_resolver_calls:
  "resolver_calls (new_calls w (snd (loggly_List_Exec env c w))) =
     (if Verbose (Globals c) \<and> loggly_ListCommand.json c then [] else [loggly_List_opts c])"
proof (cases "Verbose (Globals c) \<and> loggly_ListCommand.json c")
  case True
  then show ?thesis by (simp add: loggly_List_gate)
next
  case False
  obtain r wr where sd: "ServiceDetails env (loggly_List_opts c) = (r, wr)"
    by (cases "ServiceDetails env (loggly_List_opts c)")
  show ?thesis
  proof (cases r)
    case (Unresolved sid sv e)
    with False sd show ?thesis
      by (simp add: loggly_List_unresolved new_calls_extend)
  next
    case (Resolved sid sv)
    note res = sd[unfolded Resolved]
    show ?thesis
    proof (cases "ListLoggly env (loggly_List_input c sid sv)")
      case (Inl e)
      with False res show ?thesis
        by (simp add: loggly_List_api_error new_calls_extend)
    next
      case (Inr xs)
      with False res show ?thesis
        by (simp add: loggly_List_ok_world new_calls_extend)
    qed
  qed
qed

subsection \<open>FTP describe: the run, case by case\<close>

lemma ftp_Describe_input_version:
  "GetFTPInput.ServiceVersion (ftp_Describe_input c sid sv) = Number sv"
  by (simp add: ftp_Describe_input_def)

lemma ftp_Describe_gate:
  "Verbose (Globals c) \<Longrightarrow> ftp_DescribeCommand.json c \<Longrightarrow>
   ftp_Describe_Exec env c w = (Some ErrInvalidVerboseJSONCombo, w)"
  by (simp add: ftp_Describe_Exec_def)

lemma ftp_Describe_unresolved:
  assumes "\<not> (Verbose (Globals c) \<and> ftp_DescribeCommand.json c)"
    and "ServiceDetails env (ftp_Describe_opts c) = (Unresolved sid sv err, txt)"
  shows "ftp_Describe_Exec env c w =
     (Some err,
      record_error (AddWithContext err (service_context sid (errors_ServiceVersion env sv)))
        (Fprint txt (invoke (ServiceDetails_call (ftp_Describe_opts c)) (Some err) w)))"
  using assms by (auto simp add: ftp_Describe_Exec_def)

lemma ftp_Describe_api_error:
  assumes "\<not> (Verbose (Globals c) \<and> ftp_DescribeCommand.json c)"
    and "ServiceDetails env (ftp_Describe_opts c) = (Resolved sid sv, txt)"
    and "GetFTP env (ftp_Describe_input c sid sv) = Inl err"
  shows "ftp_Describe_Exec env c w =
     (Some err,
      record_error (Add err)
        (invoke (GetFTP_call (ftp_Describe_input c sid sv)) (Some err)
          (Fprint txt (invoke (ServiceDetails_call (ftp_Describe_opts c)) None w))))"
  using assms by (auto simp add: ftp_Describe_Exec_def Let_def)

lemma ftp_Describe_ok:
  assumes "\<not> (Verbose (Globals c) \<and> ftp_DescribeCommand.json c)"
    and "ServiceDetails env (ftp_Describe_opts c) = (Resolved sid sv, txt)"
    and "GetFTP env (ftp_Describe_input c sid sv) = Inr xs"
  shows "ftp_Describe_Exec env c w =
     (let w2 = invoke (GetFTP_call (ftp_Describe_input c sid sv)) None
                 (Fprint txt (invoke (ServiceDetails_call (ftp_Describe_opts c)) None w))
      in if ftp_DescribeCommand.json c then
           (case json_Marshal env (JFTP xs) of
              Inl err \<Rightarrow> (Some err, w2)
            | Inr data \<Rightarrow> (None, Fprint data w2))
         else
           (None, Fprint (ftp_field_lines xs)
              (if Verbose (Globals c) then w2 else Fprint (ftp_service_line xs) w2)))"
  using assms
  by (auto simp add: ftp_Describe_Exec_def Let_def split: sum.splits)

lemma ftp_Describe_ok_world:
  assumes "\<not> (Verbose (Globals c) \<and> ftp_DescribeCommand.json c)"
    and "ServiceDetails env (ftp_Describe_opts c) = (Resolved sid sv, txt)"
    and "GetFTP env (ftp_Describe_input c sid sv) = Inr xs"
  shows "calls (snd (ftp_Describe_Exec env c w)) =
           calls w @ [(ServiceDetails_call (ftp_Describe_opts c), None),
                      (GetFTP_call (ftp_Describe_input c sid sv), None)]"
    and "ErrLog (snd (ftp_Describe_Exec env c w)) = ErrLog w"
  unfolding ftp_Describe_ok[OF assms] by (simp_all add: Let_def split: sum.splits)

lemma ftp_Describe_error_recorded:
  assumes "(k, Some err) \<in> set (new_calls w (snd (ftp_Describe_Exec env c w)))"
  shows "fst (ftp_Describe_Exec env c w) = Some err \<and>
         (\<exists>entry. new_log w (snd (ftp_Describe_Exec env c w)) = [entry] \<and> entry_error entry = err \<and>
            (\<forall>opts. k = ServiceDetails_call opts \<longrightarrow>
               (\<exists>sid sv txt. ServiceDetails env opts = (Unresolved sid sv err, txt) \<and>
                  entry = AddWithContext err
                            (service_context sid (errors_ServiceVersion env sv)))))"
proof (cases "Verbose (Globals c) \<and> ftp_DescribeCommand.json c")
  case True
  with assms show ?thesis by (simp add: ftp_Describe_gate)
next
  case False
  obtain r wr where sd: "ServiceDetails env (ftp_Describe_opts c) = (r, wr)"
    by (cases "ServiceDetails env (ftp_Describe_opts c)")
  show ?thesis
  proof (cases r)
    case (Unresolved sid sv e)
    with assms False sd show ?thesis
      by (auto simp add: ftp_Describe_unresolved new_calls_extend new_log_extend)
  next
    case (Resolved sid sv)
    note res = sd[unfolded Resolved]
    show ?thesis
    proof (cases "GetFTP env (ftp_Describe_input c sid sv)")
      case (Inl e)
      with assms False res show ?thesis
        by (auto simp add: ftp_Describe_api_error new_calls_extend new_log_extend)
    next
      case (Inr xs)
      with assms False res show ?thesis
        by (simp add: ftp_Describe_ok_world new_calls_extend)
    qed
  qed
qed

lemma ftp_Describe_resolver_calls:
  "resolver_calls (new_calls w (snd (ftp_Describe_Exec env c w))) =
     (if Verbose (Globals c) \<and> ftp_DescribeCommand.json c then [] else [ftp_Describe_opts c])"
proof (cases "Verbose (Globals c) \<and> ftp_DescribeCommand.json c")
  case True
  then show ?thesis by (simp add: ftp_Describe_gate)
next
  case False
  obtain r wr where sd: "ServiceDetails env (ftp_Describe_opts c) = (r, wr)"
    by (cases "ServiceDetails env (ftp_Describe_opts c)")
  show ?thesis
  proof (cases r)
    case (Unresolved sid sv e)
    with False sd show ?thesis
      by (simp add: ftp_Describe_unresolved new_calls_extend)
  next
    case (Resolved sid sv)
    note res = sd[unfolded Resolved]
    show ?thesis
    proof (cases "GetFTP env (ftp_Describe_input c sid sv)")
      case (Inl e)
      with False res show ?thesis
        by (simp add: ftp_Describe_api_error new_calls_extend)
    next
      case (Inr xs)
      with False res show ?thesis
        by (simp add: ftp_Describe_ok_world new_calls_extend)
    qed
  qed
qed

subsection \<open>Snippet update: input construction\<close>

lemma constructInput_rejects:
  assumes "snippetID c \<noteq> [] \<or> name c = []"
  shows "constructInput env c sid n =
     Inl (Errorf (if snippetID c \<noteq> []
        then ''error parsing arguments: --snippet-id is not supported when updating a versioned VCL snippet''
        else ''error parsing arguments: must provide --name to update a versioned VCL snippet''))"
  using assms by (auto simp add: constructInput_def Let_def)

lemma constructInput_accepts:
  assumes "snippetID c = []" and "name c \<noteq> []"
  shows "\<exists>input. constructInput env c sid n = Inr input"
  using assms by (simp add: constructInput_def Let_def)

lemma constructDynamicInput_rejects:
  assumes "WasSet (newName c) \<or> snippetID c = []"
  shows "constructDynamicInput env c sid n =
     Inl (Errorf (if WasSet (newName c)
        then ''error parsing arguments: --new-name is not supported when updating a dynamic VCL snippet''
        else ''error parsing arguments: must provide --snippet-id to update a dynamic VCL snippet''))"
  using assms by (auto simp add: constructDynamicInput_def Let_def)

lemma constructDynamicInput_accepts:
  assumes "\<not> WasSet (newName c)" and "snippetID c \<noteq> []"
  shows "constructDynamicInput env c sid n =
     Inr \<lparr>UpdateDynamicSnippetInput.ID = snippetID c,
          UpdateDynamicSnippetInput.ServiceID = sid,
          UpdateDynamicSnippetInput.Content =
            (if WasSet (content c) then Some (cmd_Content env (Value (content c))) else None)\<rparr>"
  using assms by (simp add: constructDynamicInput_def Let_def)

lemma constructDynamicInput_ignores:
  "constructDynamicInput env (c\<lparr>priority := p, location := l, name := nm\<rparr>) sid n =
   constructDynamicInput env c sid n"
  by (simp add: constructDynamicInput_def Let_def)

lemma snippet_Update_opts_ignores:
  "snippet_Update_opts (c\<lparr>priority := p, location := l, name := nm\<rparr>) = snippet_Update_opts c"
  by (simp add: snippet_Update_opts_def)

subsection \<open>Snippet update: the run, case by case\<close>

lemma snippet_Update_unresolved:
  assumes "ServiceDetails env (snippet_Update_opts c) = (Unresolved sid sv err, txt)"
  shows "snippet_Update_Exec env c w =
     (Some err,
      record_error (AddWithContext err (service_context sid (errors_ServiceVersion env sv)))
        (Fprint txt (invoke (ServiceDetails_call (snippet_Update_opts c)) (Some err) w)))"
  using assms by (simp add: snippet_Update_Exec_def)

lemma snippet_Update_dynamic_invalid:
  assumes "ServiceDetails env (snippet_Update_opts c) = (Resolved sid sv, txt)"
    and "WasSet (dynamic c)"
    and "constructDynamicInput env c sid (Number sv) = Inl err"
  shows "snippet_Update_Exec env c w =
     (Some err,
      record_error (AddWithContext err (service_context sid (Number sv)))
        (Fprint txt (invoke (ServiceDetails_call (snippet_Update_opts c)) None w)))"
  using assms by (simp add: snippet_Update_Exec_def Let_def)

lemma snippet_Update_dynamic_api_error:
  assumes "ServiceDetails env (snippet_Update_opts c) = (Resolved sid sv, txt)"
    and "WasSet (dynamic c)"
    and "constructDynamicInput env c sid (Number sv) = Inr input"
    and "UpdateDynamicSnippet env input = Inl err"
  shows "snippet_Update_Exec env c w =
     (Some err,
      record_error (AddWithContext err (service_context sid (Number sv)))
        (invoke (UpdateDynamicSnippet_call input) (Some err)
          (Fprint txt (invoke (ServiceDetails_call (snippet_Update_opts c)) None w))))"
  using assms by (simp add: snippet_Update_Exec_def Let_def)

lemma snippet_Update_dynamic_ok:
  assumes "ServiceDetails env (snippet_Update_opts c) = (Resolved sid sv, txt)"
    and "WasSet (dynamic c)"
    and "constructDynamicInput env c sid (Number sv) = Inr input"
    and "UpdateDynamicSnippet env input = Inr v"
  shows "snippet_Update_Exec env c w =
     (None,
      Fprint (text_Success env (dynamic_success_message v))
        (invoke (UpdateDynamicSnippet_call input) None
          (Fprint txt (invoke (ServiceDetails_call (snippet_Update_opts c)) None w))))"
  using assms by (simp add: snippet_Update_Exec_def Let_def)

lemma snippet_Update_versioned_invalid:
  assumes "ServiceDetails env (snippet_Update_opts c) = (Resolved sid sv, txt)"
    and "\<not> WasSet (dynamic c)"
    and "constructInput env c sid (Number sv) = Inl err"
  shows "snippet_Update_Exec env c w =
     (Some err,
      record_error (AddWithContext err (service_context sid (Number sv)))
        (Fprint txt (invoke (ServiceDetails_call (snippet_Update_opts c)) None w)))"
  using assms by (simp add: snippet_Update_Exec_def Let_def)

lemma snippet_Update_versioned_api_error:
  assumes "ServiceDetails env (snippet_Update_opts c) = (Resolved sid sv, txt)"
    and "\<not> WasSet (dynamic c)"
    and "constructInput env c sid (Number sv) = Inr input"
    and "UpdateSnippet env input = Inl err"
  shows "snippet_Update_Exec env c w =
     (Some err,
      record_error (AddWithContext err (service_context sid (Number sv)))
        (invoke (UpdateSnippet_call input) (Some err)
          (Fprint txt (invoke (ServiceDetails_call (snippet_Update_opts c)) None w))))"
  using assms by (simp add: snippet_Update_Exec_def Let_def)

lemma snippet_Update_versioned_ok:
  assumes "ServiceDetails env (snippet_Update_opts c) = (Resolved sid sv, txt)"
    and "\<not> WasSet (dynamic c)"
    and "constructInput env c sid (Number sv) = Inr input"
    and "UpdateSnippet env input = Inr v"
  shows "snippet_Update_Exec env c w =
     (None,
      Fprint (text_Success env (versioned_success_message v input))
        (invoke (UpdateSnippet_call input) None
          (Fprint txt (invoke (ServiceDetails_call (snippet_Update_opts c)) None w))))"
  using assms by (simp add: snippet_Update_Exec_def Let_def)

lemma snippet_Update_error_recorded:
  assumes "(k, Some err) \<in> set (new_calls w (snd (snippet_Update_Exec env c w)))"
  shows "fst (snippet_Update_Exec env c w) = Some err \<and>
         (\<exists>entry. new_log w (snd (snippet_Update_Exec env c w)) = [entry] \<and>
            entry_error entry = err \<and>
            (\<forall>opts. k = ServiceDetails_call opts \<longrightarrow>
               (\<exists>sid sv txt. ServiceDetails env opts = (Unresolved sid sv err, txt) \<and>
                  entry = AddWithContext err
                            (service_context sid (errors_ServiceVersion env sv)))))"
proof -
  obtain r wr where sd: "ServiceDetails env (snippet_Update_opts c) = (r, wr)"
    by (cases "ServiceDetails env (snippet_Update_opts c)")
  show ?thesis
  proof (cases r)
    case (Unresolved sid sv e)
    with assms sd show ?thesis
      by (auto simp add: snippet_Update_unresolved new_calls_extend new_log_extend)
  next
    case (Resolved sid sv)
    note res = sd[unfolded Resolved]
    show ?thesis
    proof (cases "WasSet (dynamic c)")
      case True
      show ?thesis
      proof (cases "constructDynamicInput env c sid (Number sv)")
        case (Inl e)
        with assms res True show ?thesis
          by (auto simp add: snippet_Update_dynamic_invalid new_calls_extend new_log_extend)
      next
        case (Inr input)
        note built = this
        show ?thesis
        proof (cases "UpdateDynamicSnippet env input")
          case (Inl e)
          with assms res True built show ?thesis
            by (auto simp add: snippet_Update_dynamic_api_error new_calls_extend new_log_extend)
        next
          case (Inr v)
          with assms res True built show ?thesis
            by (auto simp add: snippet_Update_dynamic_ok new_calls_extend new_log_extend)
        qed
      qed
    next
      case False
      show ?thesis
      proof (cases "constructInput env c sid (Number sv)")
        case (Inl e)
        with assms res False show ?thesis
          by (auto simp add: snippet_Update_versioned_invalid new_calls_extend new_log_extend)
      next
        case (Inr input)
        note built = this
        show ?thesis
        proof (cases "UpdateSnippet env input")
          case (Inl e)
          with assms res False built show ?thesis
            by (auto simp add: snippet_Update_versioned_api_error new_calls_extend new_log_extend)
        next
          case (Inr v)
          with assms res False built show ?thesis
            by (auto simp add: snippet_Update_versioned_ok new_calls_extend new_log_extend)
        qed
      qed
    qed
  qed
qed

lemma snippet_Update_resolver_calls:
  "resolver_calls (new_calls w (snd (snippet_Update_Exec env c w))) = [snippet_Update_opts c]"
proof -
  obtain r wr where sd: "ServiceDetails env (snippet_Update_opts c) = (r, wr)"
    by (cases "ServiceDetails env (snippet_Update_opts c)")
  show ?thesis
  proof (cases r)
    case (Unresolved sid sv e)
    with sd show ?thesis
      by (simp add: snippet_Update_unresolved new_calls_extend new_log_extend)
  next
    case (Resolved sid sv)
    note res = sd[unfolded Resolved]
    show ?thesis
    proof (cases "WasSet (dynamic c)")
      case True
      show ?thesis
      proof (cases "constructDynamicInput env c sid (Number sv)")
        case (Inl e)
        with res True show ?thesis
          by (simp add: snippet_Update_dynamic_invalid new_calls_extend new_log_extend)
      next
        case (Inr input)
        note built = this
        show ?thesis
        proof (cases "UpdateDynamicSnippet env input")
          case (Inl e)
          with res True built show ?thesis
            by (simp add: snippet_Update_dynamic_api_error new_calls_extend new_log_extend)
        next
          case (Inr v)
          with res True built show ?thesis
            by (simp add: snippet_Update_dynamic_ok new_calls_extend new_log_extend)
        qed
      qed
    next
      case False
      show ?thesis
      proof (cases "constructInput env c sid (Number sv)")
        case (Inl e)
        with res False show ?thesis
          by (simp add: snippet_Update_versioned_invalid new_calls_extend new_log_extend)
      next
        case (Inr input)
        note built = this
        show ?thesis
        proof (cases "UpdateSnippet env input")
          case (Inl e)
          with res False built show ?thesis
            by (simp add: snippet_Update_versioned_api_error new_calls_extend new_log_extend)
        next
          case (Inr v)
          with res False built show ?thesis
            by (simp add: snippet_Update_versioned_ok new_calls_extend new_log_extend)
        qed
      qed
    qed
  qed
qed

lemma snippet_Update_dynamic_calls:
  assumes "WasSet (dynamic c)"
  shows "\<forall>x \<in> set (new_calls w (snd (snippet_Update_Exec env c w))). \<not> is_UpdateSnippet_call (fst x)"
proof -
  obtain r wr where sd: "ServiceDetails env (snippet_Update_opts c) = (r, wr)"
    by (cases "ServiceDetails env (snippet_Update_opts c)")
  show ?thesis
  proof (cases r)
    case (Unresolved sid sv e)
    with assms sd show ?thesis
      by (simp add: snippet_Update_unresolved new_calls_extend new_log_extend)
  next
    case (Resolved sid sv)
    note res = sd[unfolded Resolved]
    show ?thesis
    proof (cases "WasSet (dynamic c)")
      case True
      show ?thesis
      proof (cases "constructDynamicInput env c sid (Number sv)")
        case (Inl e)
        with assms res True show ?thesis
          by (simp add: snippet_Update_dynamic_invalid new_calls_extend new_log_extend)
      next
        case (Inr input)
        note built = this
        show ?thesis
        proof (cases "UpdateDynamicSnippet env input")
          case (Inl e)
          with assms res True built show ?thesis
            by (simp add: snippet_Update_dynamic_api_error new_calls_extend new_log_extend)
        next
          case (Inr v)
          with assms res True built show ?thesis
            by (simp add: snippet_Update_dynamic_ok new_calls_extend new_log_extend)
        qed
      qed
    next
      case False
      show ?thesis
      proof (cases "constructInput env c sid (Number sv)")
        case (Inl e)
        with assms res False show ?thesis
          by (simp add: snippet_Update_versioned_invalid new_calls_extend new_log_extend)
      next
        case (Inr input)
        note built = this
        show ?thesis
        proof (cases "UpdateSnippet env input")
          case (Inl e)
          with assms res False built show ?thesis
            by (simp add: snippet_Update_versioned_api_error new_calls_extend new_log_extend)
        next
          case (Inr v)
          with assms res False built show ?thesis
            by (simp add: snippet_Update_versioned_ok new_calls_extend new_log_extend)
        qed
      qed
    qed
  qed
qed

lemma snippet_Update_rejected_calls:
  assumes "(WasSet (dynamic c) \<and> (WasSet (newName c) \<or> snippetID c = [])) \<or>
           (\<not> WasSet (dynamic c) \<and> (snippetID c \<noteq> [] \<or> name c = []))"
  shows "\<forall>x \<in> set (new_calls w (snd (snippet_Update_Exec env c w))).
           \<not> is_UpdateSnippet_call (fst x) \<and> \<not> is_UpdateDynamicSnippet_call (fst x)"
proof -
  obtain r wr where sd: "ServiceDetails env (snippet_Update_opts c) = (r, wr)"
    by (cases "ServiceDetails env (snippet_Update_opts c)")
  show ?thesis
  proof (cases r)
    case (Unresolved sid sv e)
    with assms sd show ?thesis
      by (auto simp add: constructInput_rejects constructDynamicInput_rejects snippet_Update_unresolved new_calls_extend new_log_extend)
  next
    case (Resolved sid sv)
    note res = sd[unfolded Resolved]
    show ?thesis
    proof (cases "WasSet (dynamic c)")
      case True
      show ?thesis
      proof (cases "constructDynamicInput env c sid (Number sv)")
        case (Inl e)
        with assms res True show ?thesis
          by (auto simp add: constructInput_rejects constructDynamicInput_rejects snippet_Update_dynamic_invalid new_calls_extend new_log_extend)
      next
        case (Inr input)
        note built = this
        show ?thesis
        proof (cases "UpdateDynamicSnippet env input")
          case (Inl e)
          with assms res True built show ?thesis
            by (auto simp add: constructInput_rejects constructDynamicInput_rejects snippet_Update_dynamic_api_error new_calls_extend new_log_extend)
        next
          case (Inr v)
          with assms res True built show ?thesis
            by (auto simp add: constructInput_rejects constructDynamicInput_rejects snippet_Update_dynamic_ok new_calls_extend new_log_extend)
        qed
      qed
    next
      case False
      show ?thesis
      proof (cases "constructInput env c sid (Number sv)")
        case (Inl e)
        with assms res False show ?thesis
          by (auto simp add: constructInput_rejects constructDynamicInput_rejects snippet_Update_versioned_invalid new_calls_extend new_log_extend)
      next
        case (Inr input)
        note built = this
        show ?thesis
        proof (cases "UpdateSnippet env input")
          case (Inl e)
          with assms res False built show ?thesis
            by (auto simp add: constructInput_rejects constructDynamicInput_rejects snippet_Update_versioned_api_error new_calls_extend new_log_extend)
        next
          case (Inr v)
          with assms res False built show ?thesis
            by (auto simp add: constructInput_rejects constructDynamicInput_rejects snippet_Update_versioned_ok new_calls_extend new_log_extend)
        qed
      qed
    qed
  qed
qed

section \<open>The verbose and JSON combination\<close>

text \<open>
  Claim C1. For every command: when the global \<open>--verbose\<close> flag and the command's
  \<open>--json\<close> flag are both set, \<open>Exec\<close> returns \<open>ErrInvalidVerboseJSONCombo\<close> and leaves the
  world as it was, so the resolver and the API client have not been called, nothing has
  been logged and nothing printed. The list and describe commands carry a \<open>--json\<close> flag;
  the snippet update command registers none (\<open>json_flag\<close> is \<open>None\<close> there), so on it the
  two flags are never both set.
\<close>

theorem verbose_json_rejected:
  assumes "verbose_flag cmd" and "json_flag cmd = Some True"
  shows "Exec env cmd w = (Some ErrInvalidVerboseJSONCombo, w)"
  using assms
  by (cases cmd)
     (simp_all add: Verbose_def splunk_List_gate datadog_List_gate loggly_List_gate
        ftp_Describe_gate)

theorem verbose_json_rejected_witness:
  "verbose_flag (SplunkList (demo_splunk_list\<lparr>Globals := \<lparr>Flag_Verbose = True\<rparr>,
                                               splunk_ListCommand.json := True\<rparr>))
   \<and> json_flag (SplunkList (demo_splunk_list\<lparr>Globals := \<lparr>Flag_Verbose = True\<rparr>,
                                              splunk_ListCommand.json := True\<rparr>)) = Some True
   \<and> Exec demo_collaborators
        (SplunkList (demo_splunk_list\<lparr>Globals := \<lparr>Flag_Verbose = True\<rparr>,
                                      splunk_ListCommand.json := True\<rparr>)) demo_world
       = (Some ErrInvalidVerboseJSONCombo, demo_world)
   \<and> Exec demo_collaborators
        (FTPDescribe (demo_ftp_describe\<lparr>Globals := \<lparr>Flag_Verbose = True\<rparr>,
                                        ftp_DescribeCommand.json := True\<rparr>)) demo_world
       = (Some ErrInvalidVerboseJSONCombo, demo_world)"
  using verbose_json_rejected
          [where cmd = "SplunkList (demo_splunk_list\<lparr>Globals := \<lparr>Flag_Verbose = True\<rparr>,
                                                     splunk_ListCommand.json := True\<rparr>)"
             and env = demo_collaborators and w = demo_world]
        verbose_json_rejected
          [where cmd = "FTPDescribe (demo_ftp_describe\<lparr>Globals := \<lparr>Flag_Verbose = True\<rparr>,
                                                       ftp_DescribeCommand.json := True\<rparr>)"
             and env = demo_collaborators and w = demo_world]
  by simp

section \<open>Validation of the snippet update flags\<close>

text \<open>
  Claim C2. The snippet update command in versioned mode (\<open>--dynamic\<close> not given): if
  \<open>--snippet-id\<close> is not empty, \<open>constructInput\<close> fails with the message
  "error parsing arguments: --snippet-id is not supported when updating a versioned VCL
  snippet"; otherwise, if \<open>--name\<close> is empty, it fails with "error parsing arguments: must
  provide --name to update a versioned VCL snippet". In both cases the run calls neither
  \<open>UpdateSnippet\<close> nor \<open>UpdateDynamicSnippet\<close>, and once the resolver has answered, \<open>Exec\<close>
  returns that error with the resolver as its only call.
\<close>

theorem versioned_update_validation:
  assumes "\<not> WasSet (dynamic c)" and "snippetID c \<noteq> [] \<or> name c = []"
  shows "constructInput env c sid n =
           Inl (Errorf (if snippetID c \<noteq> [] then ''error parsing arguments: --snippet-id is not supported when updating a versioned VCL snippet'' else ''error parsing arguments: must provide --name to update a versioned VCL snippet''))
       \<and> (\<forall>x \<in> set (new_calls w (snd (snippet_Update_Exec env c w))).
             \<not> is_UpdateSnippet_call (fst x) \<and> \<not> is_UpdateDynamicSnippet_call (fst x))
       \<and> (ServiceDetails env (snippet_Update_opts c) = (Resolved sid' sv, wr) \<longrightarrow>
             fst (snippet_Update_Exec env c w) =
               Some (Errorf (if snippetID c \<noteq> [] then ''error parsing arguments: --snippet-id is not supported when updating a versioned VCL snippet'' else ''error parsing arguments: must provide --name to update a versioned VCL snippet''))
           \<and> new_calls w (snd (snippet_Update_Exec env c w)) =
               [(ServiceDetails_call (snippet_Update_opts c), None)])"
proof (intro conjI impI)
  show "constructInput env c sid n =
          Inl (Errorf (if snippetID c \<noteq> [] then ''error parsing arguments: --snippet-id is not supported when updating a versioned VCL snippet'' else ''error parsing arguments: must provide --name to update a versioned VCL snippet''))"
    by (rule constructInput_rejects[OF assms(2)])
  show "\<forall>x \<in> set (new_calls w (snd (snippet_Update_Exec env c w))).
          \<not> is_UpdateSnippet_call (fst x) \<and> \<not> is_UpdateDynamicSnippet_call (fst x)"
    using assms by (intro snippet_Update_rejected_calls) simp
next
  assume res: "ServiceDetails env (snippet_Update_opts c) = (Resolved sid' sv, wr)"
  note run = snippet_Update_versioned_invalid
               [OF res assms(1) constructInput_rejects[OF assms(2)]]
  show "fst (snippet_Update_Exec env c w) =
          Some (Errorf (if snippetID c \<noteq> [] then ''error parsing arguments: --snippet-id is not supported when updating a versioned VCL snippet'' else ''error parsing arguments: must provide --name to update a versioned VCL snippet''))"
    unfolding run by simp
  show "new_calls w (snd (snippet_Update_Exec env c w)) =
          [(ServiceDetails_call (snippet_Update_opts c), None)]"
    unfolding run by (simp add: new_calls_extend)
qed

theorem versioned_update_validation_witness:
  "constructInput demo_collaborators (demo_update\<lparr>snippetID := ''abc123''\<rparr>) ''svc1'' 3 =
     Inl (Errorf ''error parsing arguments: --snippet-id is not supported when updating a versioned VCL snippet'')
   \<and> fst (snippet_Update_Exec demo_collaborators (demo_update\<lparr>snippetID := ''abc123''\<rparr>)
           demo_world) = Some (Errorf ''error parsing arguments: --snippet-id is not supported when updating a versioned VCL snippet'')
   \<and> constructInput demo_collaborators (demo_update\<lparr>name := []\<rparr>) ''svc1'' 3 =
     Inl (Errorf ''error parsing arguments: must provide --name to update a versioned VCL snippet'')
   \<and> fst (snippet_Update_Exec demo_collaborators (demo_update\<lparr>name := []\<rparr>) demo_world) =
       Some (Errorf ''error parsing arguments: must provide --name to update a versioned VCL snippet'')
   \<and> new_calls demo_world
       (snd (snippet_Update_Exec demo_collaborators (demo_update\<lparr>name := []\<rparr>) demo_world)) =
       [(ServiceDetails_call (snippet_Update_opts (demo_update\<lparr>name := []\<rparr>)), None)]"
  using versioned_update_validation
          [where c = "demo_update\<lparr>snippetID := ''abc123''\<rparr>" and env = demo_collaborators
             and sid = "''svc1''" and n = 3 and w = demo_world and sid' = "''svc1''"
             and sv = "\<lparr>Number = 3\<rparr>" and wr = "[]"]
        versioned_update_validation
          [where c = "demo_update\<lparr>name := []\<rparr>" and env = demo_collaborators
             and sid = "''svc1''" and n = 3 and w = demo_world and sid' = "''svc1''"
             and sv = "\<lparr>Number = 3\<rparr>" and wr = "[]"]
  by (simp add: demo_update_def demo_collaborators_def)

text \<open>
  Claim C3. The snippet update command in dynamic mode (\<open>--dynamic\<close> given): if
  \<open>--new-name\<close> was set, \<open>constructDynamicInput\<close> fails with "error parsing arguments:
  --new-name is not supported when updating a dynamic VCL snippet"; otherwise, if
  \<open>--snippet-id\<close> is empty, it fails with "error parsing arguments: must provide
  --snippet-id to update a dynamic VCL snippet", and \<open>Exec\<close> returns that error without
  any update call. Otherwise, once the resolver has answered, the run calls
  \<open>UpdateDynamicSnippet\<close> with the constructed input right after the resolver and nothing
  else. In no dynamic run is \<open>UpdateSnippet\<close> called.
\<close>

theorem dynamic_update_validation:
  assumes "WasSet (dynamic c)"
  shows "(\<forall>x \<in> set (new_calls w (snd (snippet_Update_Exec env c w))).
             \<not> is_UpdateSnippet_call (fst x))
       \<and> (WasSet (newName c) \<or> snippetID c = [] \<longrightarrow>
             constructDynamicInput env c sid n =
               Inl (Errorf (if WasSet (newName c) then ''error parsing arguments: --new-name is not supported when updating a dynamic VCL snippet'' else ''error parsing arguments: must provide --snippet-id to update a dynamic VCL snippet''))
           \<and> (\<forall>x \<in> set (new_calls w (snd (snippet_Update_Exec env c w))).
                 \<not> is_UpdateDynamicSnippet_call (fst x))
           \<and> (ServiceDetails env (snippet_Update_opts c) = (Resolved sid' sv, wr) \<longrightarrow>
                 fst (snippet_Update_Exec env c w) =
                   Some (Errorf (if WasSet (newName c) then ''error parsing arguments: --new-name is not supported when updating a dynamic VCL snippet'' else ''error parsing arguments: must provide --snippet-id to update a dynamic VCL snippet''))))
       \<and> (\<not> WasSet (newName c) \<and> snippetID c \<noteq> [] \<and>
           ServiceDetails env (snippet_Update_opts c) = (Resolved sid' sv, wr) \<longrightarrow>
             (\<exists>input. constructDynamicInput env c sid' (Number sv) = Inr input
                \<and> new_calls w (snd (snippet_Update_Exec env c w)) =
                    [(ServiceDetails_call (snippet_Update_opts c), None),
                     (UpdateDynamicSnippet_call input,
                      result_error (UpdateDynamicSnippet env input))]))"
proof (intro conjI impI)
  show "\<forall>x \<in> set (new_calls w (snd (snippet_Update_Exec env c w))).
          \<not> is_UpdateSnippet_call (fst x)"
    by (rule snippet_Update_dynamic_calls[OF assms])
next
  assume bad: "WasSet (newName c) \<or> snippetID c = []"
  show "constructDynamicInput env c sid n =
          Inl (Errorf (if WasSet (newName c) then ''error parsing arguments: --new-name is not supported when updating a dynamic VCL snippet'' else ''error parsing arguments: must provide --snippet-id to update a dynamic VCL snippet''))"
    by (rule constructDynamicInput_rejects[OF bad])
  show "\<forall>x \<in> set (new_calls w (snd (snippet_Update_Exec env c w))).
          \<not> is_UpdateDynamicSnippet_call (fst x)"
    using snippet_Update_rejected_calls[of c w env] assms bad by simp
  assume res: "ServiceDetails env (snippet_Update_opts c) = (Resolved sid' sv, wr)"
  show "fst (snippet_Update_Exec env c w) =
          Some (Errorf (if WasSet (newName c) then ''error parsing arguments: --new-name is not supported when updating a dynamic VCL snippet'' else ''error parsing arguments: must provide --snippet-id to update a dynamic VCL snippet''))"
    unfolding snippet_Update_dynamic_invalid
                [OF res assms constructDynamicInput_rejects[OF bad]]
    by simp
next
  assume ok: "\<not> WasSet (newName c) \<and> snippetID c \<noteq> [] \<and>
              ServiceDetails env (snippet_Update_opts c) = (Resolved sid' sv, wr)"
  then have res: "ServiceDetails env (snippet_Update_opts c) = (Resolved sid' sv, wr)"
    by simp
  from ok obtain input where built: "constructDynamicInput env c sid' (Number sv) = Inr input"
    by (simp add: constructDynamicInput_accepts)
  have "new_calls w (snd (snippet_Update_Exec env c w)) =
          [(ServiceDetails_call (snippet_Update_opts c), None),
           (UpdateDynamicSnippet_call input, result_error (UpdateDynamicSnippet env input))]"
  proof (cases "UpdateDynamicSnippet env input")
    case (Inl e)
    show ?thesis
      unfolding snippet_Update_dynamic_api_error[OF res assms built Inl]
      by (simp add: new_calls_extend Inl)
  next
    case (Inr v)
    show ?thesis
      unfolding snippet_Update_dynamic_ok[OF res assms built Inr]
      by (simp add: new_calls_extend Inr)
  qed
  with built
  show "\<exists>input. constructDynamicInput env c sid' (Number sv) = Inr input
          \<and> new_calls w (snd (snippet_Update_Exec env c w)) =
              [(ServiceDetails_call (snippet_Update_opts c), None),
               (UpdateDynamicSnippet_call input,
                result_error (UpdateDynamicSnippet env input))]"
    by blast
qed

theorem dynamic_update_validation_witness:
  "constructDynamicInput demo_collaborators
     (demo_update_dynamic\<lparr>newName := \<lparr>WasSet = True, Value = ''other''\<rparr>\<rparr>) ''svc1'' 3 =
     Inl (Errorf ''error parsing arguments: --new-name is not supported when updating a dynamic VCL snippet'')
   \<and> fst (snippet_Update_Exec demo_collaborators
            (demo_update_dynamic\<lparr>newName := \<lparr>WasSet = True, Value = ''other''\<rparr>\<rparr>) demo_world) =
       Some (Errorf ''error parsing arguments: --new-name is not supported when updating a dynamic VCL snippet'')
   \<and> constructDynamicInput demo_collaborators (demo_update_dynamic\<lparr>snippetID := []\<rparr>)
       ''svc1'' 3 = Inl (Errorf ''error parsing arguments: must provide --snippet-id to update a dynamic VCL snippet'')
   \<and> fst (snippet_Update_Exec demo_collaborators (demo_update_dynamic\<lparr>snippetID := []\<rparr>)
            demo_world) = Some (Errorf ''error parsing arguments: must provide --snippet-id to update a dynamic VCL snippet'')
   \<and> (\<exists>input. constructDynamicInput demo_collaborators demo_update_dynamic ''svc1'' 3 =
                  Inr input
        \<and> new_calls demo_world
            (snd (snippet_Update_Exec demo_collaborators demo_update_dynamic demo_world)) =
            [(ServiceDetails_call (snippet_Update_opts demo_update_dynamic), None),
             (UpdateDynamicSnippet_call input, None)])"
  using dynamic_update_validation
          [where c = "demo_update_dynamic\<lparr>newName := \<lparr>WasSet = True, Value = ''other''\<rparr>\<rparr>"
             and env = demo_collaborators and sid = "''svc1''" and n = 3 and w = demo_world
             and sid' = "''svc1''" and sv = "\<lparr>Number = 3\<rparr>" and wr = "[]"]
        dynamic_update_validation
          [where c = "demo_update_dynamic\<lparr>snippetID := []\<rparr>"
             and env = demo_collaborators and sid = "''svc1''" and n = 3 and w = demo_world
             and sid' = "''svc1''" and sv = "\<lparr>Number = 3\<rparr>" and wr = "[]"]
        dynamic_update_validation
          [where c = demo_update_dynamic
             and env = demo_collaborators and sid = "''svc1''" and n = 3 and w = demo_world
             and sid' = "''svc1''" and sv = "\<lparr>Number = 3\<rparr>" and wr = "[]"]
  by (simp add: demo_update_dynamic_def demo_update_def demo_collaborators_def)

section \<open>What the resolver is asked\<close>

text \<open>
  Claim C4. Every call of the resolver made by a read-only command (the three list
  commands and the FTP describe command) has \<open>AllowActiveLocked\<close> set and no autoclone
  flag; the call made by the snippet update command has \<open>AllowActiveLocked\<close> unset and
  carries the user's \<open>--autoclone\<close> flag. A run calls the resolver once, except when the
  verbose and JSON flags are combined, where it is not called.
\<close>

theorem resolver_options:
  "(\<forall>opts \<in> set (resolver_calls (new_calls w (snd (Exec env cmd w)))).
       AllowActiveLocked opts = read_only cmd \<and>
       (case cmd of
          SnippetUpdate c \<Rightarrow> AutoCloneFlag opts = autoClone c
        | _ \<Rightarrow> \<not> WasSet (AutoCloneFlag opts)))
   \<and> length (resolver_calls (new_calls w (snd (Exec env cmd w)))) =
       (if verbose_flag cmd \<and> json_flag cmd = Some True then 0 else 1)"
proof (cases cmd)
  case (SplunkList c)
  then show ?thesis
    by (simp add: splunk_List_resolver_calls splunk_List_opts_def Verbose_def)
next
  case (DatadogList c)
  then show ?thesis
    by (simp add: datadog_List_resolver_calls datadog_List_opts_def Verbose_def)
next
  case (LogglyList c)
  then show ?thesis
    by (simp add: loggly_List_resolver_calls loggly_List_opts_def Verbose_def)
next
  case (FTPDescribe c)
  then show ?thesis
    by (simp add: ftp_Describe_resolver_calls ftp_Describe_opts_def Verbose_def)
next
  case (SnippetUpdate c)
  then show ?thesis
    by (simp add: snippet_Update_resolver_calls snippet_Update_opts_def)
qed

theorem resolver_options_witness:
  "resolver_calls (new_calls demo_world
      (snd (Exec demo_collaborators (SplunkList demo_splunk_list) demo_world))) =
     [splunk_List_opts demo_splunk_list]
   \<and> AllowActiveLocked (splunk_List_opts demo_splunk_list)
   \<and> \<not> WasSet (AutoCloneFlag (splunk_List_opts demo_splunk_list))
   \<and> resolver_calls (new_calls demo_world
        (snd (Exec demo_collaborators (SnippetUpdate demo_update) demo_world))) =
       [snippet_Update_opts demo_update]
   \<and> \<not> AllowActiveLocked (snippet_Update_opts demo_update)
   \<and> AutoCloneFlag (snippet_Update_opts demo_update) = \<lparr>WasSet = True, Value = True\<rparr>"
proof -
  have a: "resolver_calls (new_calls demo_world
      (snd (Exec demo_collaborators (SplunkList demo_splunk_list) demo_world))) =
     [splunk_List_opts demo_splunk_list]"
    by (simp add: splunk_List_resolver_calls demo_splunk_list_def Verbose_def)
  have b: "resolver_calls (new_calls demo_world
        (snd (Exec demo_collaborators (SnippetUpdate demo_update) demo_world))) =
       [snippet_Update_opts demo_update]"
    by (simp add: snippet_Update_resolver_calls)
  show ?thesis
    using resolver_options[where cmd = "SplunkList demo_splunk_list"
                             and env = demo_collaborators and w = demo_world]
          resolver_options[where cmd = "SnippetUpdate demo_update"
                             and env = demo_collaborators and w = demo_world]
    unfolding a b
    by (simp add: demo_update_def)
qed

section \<open>Errors of the collaborators\<close>

text \<open>
  Claim C6, as the code has it. For every command: whenever the resolver or a resource
  API call of the run returns an error, \<open>Exec\<close> returns that very error, and the run adds
  exactly one entry to the error log, an entry for that error; for an error of the
  resolver the entry carries the context fields \<open>Service ID\<close> and \<open>Service Version\<close>
  taken from the resolver's answer. The converse, that \<open>Exec\<close> fails only in those cases,
  does not hold: see the run below.
\<close>

theorem collaborator_errors_recorded:
  assumes "(k, Some err) \<in> set (new_calls w (snd (Exec env cmd w)))"
  shows "fst (Exec env cmd w) = Some err \<and>
         (\<exists>entry. new_log w (snd (Exec env cmd w)) = [entry] \<and> entry_error entry = err \<and>
            (\<forall>opts. k = ServiceDetails_call opts \<longrightarrow>
               (\<exists>sid sv wr. ServiceDetails env opts = (Unresolved sid sv err, wr) \<and>
                  entry = AddWithContext err
                            (service_context sid (errors_ServiceVersion env sv)))))"
proof (cases cmd)
  case (SplunkList c)
  with assms show ?thesis using splunk_List_error_recorded[of k err w env c] by simp
next
  case (DatadogList c)
  with assms show ?thesis using datadog_List_error_recorded[of k err w env c] by simp
next
  case (LogglyList c)
  with assms show ?thesis using loggly_List_error_recorded[of k err w env c] by simp
next
  case (FTPDescribe c)
  with assms show ?thesis using ftp_Describe_error_recorded[of k err w env c] by simp
next
  case (SnippetUpdate c)
  with assms show ?thesis using snippet_Update_error_recorded[of k err w env c] by simp
qed

theorem collaborator_errors_recorded_witness:
  "(ServiceDetails_call (splunk_List_opts demo_splunk_list), Some (RemoteError ''no such version''))
     \<in> set (new_calls demo_world
              (snd (Exec demo_unresolved (SplunkList demo_splunk_list) demo_world)))
   \<and> fst (Exec demo_unresolved (SplunkList demo_splunk_list) demo_world) =
       Some (RemoteError ''no such version'')
   \<and> (\<exists>entry. new_log demo_world
                  (snd (Exec demo_unresolved (SplunkList demo_splunk_list) demo_world)) = [entry]
          \<and> entry_error entry = RemoteError ''no such version'')
   \<and> (GetFTP_call (ftp_Describe_input demo_ftp_describe ''svc1'' \<lparr>Number = 3\<rparr>),
        Some (RemoteError ''503''))
     \<in> set (new_calls demo_world
              (snd (Exec demo_api_down (FTPDescribe demo_ftp_describe) demo_world)))
   \<and> fst (Exec demo_api_down (FTPDescribe demo_ftp_describe) demo_world) =
       Some (RemoteError ''503'')
   \<and> (\<exists>entry. new_log demo_world
                  (snd (Exec demo_api_down (FTPDescribe demo_ftp_describe) demo_world)) = [entry]
          \<and> entry_error entry = RemoteError ''503'')"
proof -
  have a: "(ServiceDetails_call (splunk_List_opts demo_splunk_list),
            Some (RemoteError ''no such version''))
     \<in> set (new_calls demo_world
              (snd (Exec demo_unresolved (SplunkList demo_splunk_list) demo_world)))"
    by (simp add: splunk_List_Exec_def demo_unresolved_def demo_collaborators_def
          demo_splunk_list_def Verbose_def new_calls_def demo_world_def)
  have b: "(GetFTP_call (ftp_Describe_input demo_ftp_describe ''svc1'' \<lparr>Number = 3\<rparr>),
        Some (RemoteError ''503''))
     \<in> set (new_calls demo_world
              (snd (Exec demo_api_down (FTPDescribe demo_ftp_describe) demo_world)))"
    by (simp add: ftp_Describe_Exec_def demo_api_down_def demo_collaborators_def
          demo_ftp_describe_def Verbose_def new_calls_def demo_world_def Let_def)
  from collaborator_errors_recorded[OF a] collaborator_errors_recorded[OF b] a b
  show ?thesis by blast
qed

text \<open>
  The run that refutes C6 as it is worded ("a non-nil error in exactly those cases"):
  \<open>splunk list --verbose --json\<close>. \<open>Exec\<close> returns an error although no call was made,
  so none returned an error, and the error log stays as it was.
\<close>

theorem error_without_collaborator_error:
  "fst (Exec demo_collaborators
          (SplunkList (demo_splunk_list\<lparr>Globals := \<lparr>Flag_Verbose = True\<rparr>,
                                        splunk_ListCommand.json := True\<rparr>))
          demo_world) = Some ErrInvalidVerboseJSONCombo
   \<and> new_calls demo_world
       (snd (Exec demo_collaborators
               (SplunkList (demo_splunk_list\<lparr>Globals := \<lparr>Flag_Verbose = True\<rparr>,
                                        splunk_ListCommand.json := True\<rparr>))
               demo_world)) = []
   \<and> new_log demo_world
       (snd (Exec demo_collaborators
               (SplunkList (demo_splunk_list\<lparr>Globals := \<lparr>Flag_Verbose = True\<rparr>,
                                        splunk_ListCommand.json := True\<rparr>))
               demo_world)) = []"
  by (simp add: splunk_List_Exec_def Verbose_def demo_splunk_list_def)

section \<open>Input construction of the snippet update command\<close>




text \<open>
  Claim C8. In dynamic mode the input of the update holds the snippet ID, the service ID
  and, when \<open>--content\<close> was set, the content, and nothing else: the resolved version
  number has no influence on \<open>constructDynamicInput\<close>, and neither have \<open>--priority\<close>,
  \<open>--type\<close> and \<open>--name\<close>. A dynamic run of \<open>Exec\<close> is the same whatever these three flags
  are, so they are ignored and not rejected.
\<close>

theorem dynamic_input_ignores_version_and_flags:
  "constructDynamicInput env (c\<lparr>priority := p, location := l, name := nm\<rparr>) sid n' =
     constructDynamicInput env c sid n
   \<and> (\<not> WasSet (newName c) \<and> snippetID c \<noteq> [] \<longrightarrow>
        constructDynamicInput env c sid n =
          Inr \<lparr>UpdateDynamicSnippetInput.ID = snippetID c,
               UpdateDynamicSnippetInput.ServiceID = sid,
               UpdateDynamicSnippetInput.Content =
                 (if WasSet (content c) then Some (cmd_Content env (Value (content c)))
                  else None)\<rparr>)
   \<and> (WasSet (dynamic c) \<longrightarrow>
        snippet_Update_Exec env (c\<lparr>priority := p, location := l, name := nm\<rparr>) w =
          snippet_Update_Exec env c w)"
proof (intro conjI impI)
  show "constructDynamicInput env (c\<lparr>priority := p, location := l, name := nm\<rparr>) sid n' =
          constructDynamicInput env c sid n"
    by (simp add: constructDynamicInput_def Let_def)
  show "constructDynamicInput env c sid n =
          Inr \<lparr>UpdateDynamicSnippetInput.ID = snippetID c,
               UpdateDynamicSnippetInput.ServiceID = sid,
               UpdateDynamicSnippetInput.Content =
                 (if WasSet (content c) then Some (cmd_Content env (Value (content c)))
                  else None)\<rparr>"
    if "\<not> WasSet (newName c) \<and> snippetID c \<noteq> []"
    using that by (simp add: constructDynamicInput_accepts)
  show "snippet_Update_Exec env (c\<lparr>priority := p, location := l, name := nm\<rparr>) w =
          snippet_Update_Exec env c w"
    if "WasSet (dynamic c)"
    using that
    by (simp add: snippet_Update_Exec_def snippet_Update_opts_ignores
          constructDynamicInput_ignores Let_def split: prod.splits resolution.splits)
qed

theorem dynamic_input_ignores_version_and_flags_witness:
  "WasSet (dynamic demo_update_dynamic) \<and> \<not> WasSet (newName demo_update_dynamic)
   \<and> snippetID demo_update_dynamic \<noteq> []
   \<and> constructDynamicInput demo_collaborators (demo_update_dynamic\<lparr>priority := \<lparr>WasSet = True, Value = 10\<rparr>,
                           location := \<lparr>WasSet = True, Value = ''recv''\<rparr>,
                           name := ''recv_hook''\<rparr>) ''svc1'' 7 =
       constructDynamicInput demo_collaborators demo_update_dynamic ''svc1'' 3
   \<and> constructDynamicInput demo_collaborators demo_update_dynamic ''svc1'' 3 =
       Inr \<lparr>UpdateDynamicSnippetInput.ID = ''abc123'',
            UpdateDynamicSnippetInput.ServiceID = ''svc1'',
            UpdateDynamicSnippetInput.Content = Some ''set req.http.X = 1;''\<rparr>
   \<and> snippet_Update_Exec demo_collaborators (demo_update_dynamic\<lparr>priority := \<lparr>WasSet = True, Value = 10\<rparr>,
                           location := \<lparr>WasSet = True, Value = ''recv''\<rparr>,
                           name := ''recv_hook''\<rparr>) demo_world =
       snippet_Update_Exec demo_collaborators demo_update_dynamic demo_world
   \<and> fst (snippet_Update_Exec demo_collaborators (demo_update_dynamic\<lparr>priority := \<lparr>WasSet = True, Value = 10\<rparr>,
                           location := \<lparr>WasSet = True, Value = ''recv''\<rparr>,
                           name := ''recv_hook''\<rparr>) demo_world) = None"
proof -
  have h: "WasSet (dynamic demo_update_dynamic)" "\<not> WasSet (newName demo_update_dynamic)"
    "snippetID demo_update_dynamic \<noteq> []"
    by (simp_all add: demo_update_dynamic_def demo_update_def)
  have ok: "fst (snippet_Update_Exec demo_collaborators demo_update_dynamic demo_world) = None"
    by (simp add: snippet_Update_Exec_def constructDynamicInput_def demo_update_dynamic_def
          demo_update_def demo_collaborators_def Let_def)
  from dynamic_input_ignores_version_and_flags
         [where c = demo_update_dynamic and env = demo_collaborators
            and p = "\<lparr>WasSet = True, Value = 10\<rparr>" and l = "\<lparr>WasSet = True, Value = ''recv''\<rparr>"
            and nm = "''recv_hook''" and sid = "''svc1''" and n = 3 and n' = 7
            and w = demo_world] h ok
  show ?thesis
    by (simp add: demo_update_dynamic_def demo_update_def demo_collaborators_def)
qed

section \<open>What the list commands print\<close>

lemma splunk_List_output:
  assumes "\<not> (Verbose (Globals c) \<and> splunk_ListCommand.json c)"
    and "ServiceDetails env (splunk_List_opts c) = (Resolved sid sv, wr)"
    and "ListSplunks env (splunk_List_input c sid sv) = Inr xs"
    and "splunk_ListCommand.json c \<Longrightarrow> json_Marshal env (JSplunks xs) = Inr data"
  shows "fst (splunk_List_Exec env c w) = None"
    and "out (snd (splunk_List_Exec env c w)) =
           out w @ wr @
           (if Verbose (Globals c) then
              ''Version: '' @ fmt_d (Number sv) @ NL
                @ concat (map (\<lambda>(i, x). splunk_block i (length xs) x) (enumerate 0 xs)) @ NL
            else if splunk_ListCommand.json c then data
            else Table_Print env
                   (Header [CellS ''SERVICE'', CellS ''VERSION'', CellS ''NAME'']
                    # map (\<lambda>x. Line [CellS (Splunk.ServiceID x), CellI (Splunk.ServiceVersion x),
                                        CellS (Splunk.Name x)]) xs))"
  using assms(1,4) unfolding splunk_List_ok[OF assms(1-3)]
  by (auto simp add: Let_def splunk_lines_rows splunk_blocks_enumerate AddHeader_def
        NewTable_def)


lemma splunk_List_empty:
  "(ServiceDetails env (splunk_List_opts cs) = (Resolved sid sv, wr) \<and>
    ListSplunks env (splunk_List_input cs sid sv) = Inr [] \<longrightarrow>
      (\<not> Verbose (Globals cs) \<and> \<not> splunk_ListCommand.json cs \<longrightarrow>
         fst (splunk_List_Exec env cs w) = None \<and>
         out (snd (splunk_List_Exec env cs w)) =
           out w @ wr @ Table_Print env [Header [CellS ''SERVICE'', CellS ''VERSION'', CellS ''NAME'']])
    \<and> (Verbose (Globals cs) \<and> \<not> splunk_ListCommand.json cs \<longrightarrow>
         fst (splunk_List_Exec env cs w) = None \<and>
         out (snd (splunk_List_Exec env cs w)) =
           out w @ wr @ ''Version: '' @ fmt_d (Number sv) @ NL @ NL))"
proof (intro impI)
  assume "ServiceDetails env (splunk_List_opts cs) = (Resolved sid sv, wr) \<and>
          ListSplunks env (splunk_List_input cs sid sv) = Inr []"
  then have res: "ServiceDetails env (splunk_List_opts cs) = (Resolved sid sv, wr)"
    and api: "ListSplunks env (splunk_List_input cs sid sv) = Inr []"
    by simp_all
  note run = splunk_List_output[OF _ res api, of "[]" w]
  show "(\<not> Verbose (Globals cs) \<and> \<not> splunk_ListCommand.json cs \<longrightarrow>
         fst (splunk_List_Exec env cs w) = None \<and>
         out (snd (splunk_List_Exec env cs w)) =
           out w @ wr @ Table_Print env [Header [CellS ''SERVICE'', CellS ''VERSION'', CellS ''NAME'']])
    \<and> (Verbose (Globals cs) \<and> \<not> splunk_ListCommand.json cs \<longrightarrow>
         fst (splunk_List_Exec env cs w) = None \<and>
         out (snd (splunk_List_Exec env cs w)) =
           out w @ wr @ ''Version: '' @ fmt_d (Number sv) @ NL @ NL)"
  proof (intro conjI impI; elim conjE)
    assume m: "\<not> Verbose (Globals cs)" "\<not> splunk_ListCommand.json cs"
    from m show "fst (splunk_List_Exec env cs w) = None" by (intro run(1)) simp_all
    from m run(2) show "out (snd (splunk_List_Exec env cs w)) =
           out w @ wr @ Table_Print env [Header [CellS ''SERVICE'', CellS ''VERSION'', CellS ''NAME'']]" by simp
  next
    assume m: "Verbose (Globals cs)" "\<not> splunk_ListCommand.json cs"
    from m show "fst (splunk_List_Exec env cs w) = None" by (intro run(1)) simp_all
    from m run(2) show "out (snd (splunk_List_Exec env cs w)) =
           out w @ wr @ ''Version: '' @ fmt_d (Number sv) @ NL @ NL" by simp
  qed
qed

lemma datadog_List_output:
  assumes "\<not> (Verbose (Globals c) \<and> datadog_ListCommand.json c)"
    and "ServiceDetails env (datadog_List_opts c) = (Resolved sid sv, wr)"
    and "ListDatadog env (datadog_List_input c sid sv) = Inr xs"
    and "datadog_ListCommand.json c \<Longrightarrow> json_Marshal env (JDatadogs xs) = Inr data"
  shows "fst (datadog_List_Exec env c w) = None"
    and "out (snd (datadog_List_Exec env c w)) =
           out w @ wr @
           (if Verbose (Globals c) then
              ''Version: '' @ fmt_d (Number sv) @ NL
                @ concat (map (\<lambda>(i, x). datadog_block i (length xs) x) (enumerate 0 xs)) @ NL
            else if datadog_ListCommand.json c then data
            else Table_Print env
                   (Header [CellS ''SERVICE'', CellS ''VERSION'', CellS ''NAME'']
                    # map (\<lambda>x. Line [CellS (Datadog.ServiceID x), CellI (Datadog.ServiceVersion x),
                                        CellS (Datadog.Name x)]) xs))"
  using assms(1,4) unfolding datadog_List_ok[OF assms(1-3)]
  by (auto simp add: Let_def datadog_lines_rows datadog_blocks_enumerate AddHeader_def
        NewTable_def)


lemma datadog_List_empty:
  "(ServiceDetails env (datadog_List_opts cd) = (Resolved sid sv, wr) \<and>
    ListDatadog env (datadog_List_input cd sid sv) = Inr [] \<longrightarrow>
      (\<not> Verbose (Globals cd) \<and> \<not> datadog_ListCommand.json cd \<longrightarrow>
         fst (datadog_List_Exec env cd w) = None \<and>
         out (snd (datadog_List_Exec env cd w)) =
           out w @ wr @ Table_Print env [Header [CellS ''SERVICE'', CellS ''VERSION'', CellS ''NAME'']])
    \<and> (Verbose (Globals cd) \<and> \<not> datadog_ListCommand.json cd \<longrightarrow>
         fst (datadog_List_Exec env cd w) = None \<and>
         out (snd (datadog_List_Exec env cd w)) =
           out w @ wr @ ''Version: '' @ fmt_d (Number sv) @ NL @ NL))"
proof (intro impI)
  assume "ServiceDetails env (datadog_List_opts cd) = (Resolved sid sv, wr) \<and>
          ListDatadog env (datadog_List_input cd sid sv) = Inr []"
  then have res: "ServiceDetails env (datadog_List_opts cd) = (Resolved sid sv, wr)"
    and api: "ListDatadog env (datadog_List_input cd sid sv) = Inr []"
    by simp_all
  note run = datadog_List_output[OF _ res api, of "[]" w]
  show "(\<not> Verbose (Globals cd) \<and> \<not> datadog_ListCommand.json cd \<longrightarrow>
         fst (datadog_List_Exec env cd w) = None \<and>
         out (snd (datadog_List_Exec env cd w)) =
           out w @ wr @ Table_Print env [Header [CellS ''SERVICE'', CellS ''VERSION'', CellS ''NAME'']])
    \<and> (Verbose (Globals cd) \<and> \<not> datadog_ListCommand.json cd \<longrightarrow>
         fst (datadog_List_Exec env cd w) = None \<and>
         out (snd (datadog_List_Exec env cd w)) =
           out w @ wr @ ''Version: '' @ fmt_d (Number sv) @ NL @ NL)"
  proof (intro conjI impI; elim conjE)
    assume m: "\<not> Verbose (Globals cd)" "\<not> datadog_ListCommand.json cd"
    from m show "fst (datadog_List_Exec env cd w) = None" by (intro run(1)) simp_all
    from m run(2) show "out (snd (datadog_List_Exec env cd w)) =
           out w @ wr @ Table_Print env [Header [CellS ''SERVICE'', CellS ''VERSION'', CellS ''NAME'']]" by simp
  next
    assume m: "Verbose (Globals cd)" "\<not> datadog_ListCommand.json cd"
    from m show "fst (datadog_List_Exec env cd w) = None" by (intro run(1)) simp_all
    from m run(2) show "out (snd (datadog_List_Exec env cd w)) =
           out w @ wr @ ''Version: '' @ fmt_d (Number sv) @ NL @ NL" by simp
  qed
qed

lemma loggly_List_output:
  assumes "\<not> (Verbose (Globals c) \<and> loggly_ListCommand.json c)"
    and "ServiceDetails env (loggly_List_opts c) = (Resolved sid sv, wr)"
    and "ListLoggly env (loggly_List_input c sid sv) = Inr xs"
    and "loggly_ListCommand.json c \<Longrightarrow> json_Marshal env (JLogglys xs) = Inr data"
  shows "fst (loggly_List_Exec env c w) = None"
    and "out (snd (loggly_List_Exec env c w)) =
           out w @ wr @
           (if Verbose (Globals c) then
              ''Version: '' @ fmt_d (Number sv) @ NL
                @ concat (map (\<lambda>(i, x). loggly_block i (length xs) x) (enumerate 0 xs)) @ NL
            else if loggly_ListCommand.json c then data
            else Table_Print env
                   (Header [CellS ''SERVICE'', CellS ''VERSION'', CellS ''NAME'']
                    # map (\<lambda>x. Line [CellS (Loggly.ServiceID x), CellI (Loggly.ServiceVersion x),
                                        CellS (Loggly.Name x)]) xs))"
  using assms(1,4) unfolding loggly_List_ok[OF assms(1-3)]
  by (auto simp add: Let_def loggly_lines_rows loggly_blocks_enumerate AddHeader_def
        NewTable_def)


lemma loggly_List_empty:
  "(ServiceDetails env (loggly_List_opts cl) = (Resolved sid sv, wr) \<and>
    ListLoggly env (loggly_List_input cl sid sv) = Inr [] \<longrightarrow>
      (\<not> Verbose (Globals cl) \<and> \<not> loggly_ListCommand.json cl \<longrightarrow>
         fst (loggly_List_Exec env cl w) = None \<and>
         out (snd (loggly_List_Exec env cl w)) =
           out w @ wr @ Table_Print env [Header [CellS ''SERVICE'', CellS ''VERSION'', CellS ''NAME'']])
    \<and> (Verbose (Globals cl) \<and> \<not> loggly_ListCommand.json cl \<longrightarrow>
         fst (loggly_List_Exec env cl w) = None \<and>
         out (snd (loggly_List_Exec env cl w)) =
           out w @ wr @ ''Version: '' @ fmt_d (Number sv) @ NL @ NL))"
proof (intro impI)
  assume "ServiceDetails env (loggly_List_opts cl) = (Resolved sid sv, wr) \<and>
          ListLoggly env (loggly_List_input cl sid sv) = Inr []"
  then have res: "ServiceDetails env (loggly_List_opts cl) = (Resolved sid sv, wr)"
    and api: "ListLoggly env (loggly_List_input cl sid sv) = Inr []"
    by simp_all
  note run = loggly_List_output[OF _ res api, of "[]" w]
  show "(\<not> Verbose (Globals cl) \<and> \<not> loggly_ListCommand.json cl \<longrightarrow>
         fst (loggly_List_Exec env cl w) = None \<and>
         out (snd (loggly_List_Exec env cl w)) =
           out w @ wr @ Table_Print env [Header [CellS ''SERVICE'', CellS ''VERSION'', CellS ''NAME'']])
    \<and> (Verbose (Globals cl) \<and> \<not> loggly_ListCommand.json cl \<longrightarrow>
         fst (loggly_List_Exec env cl w) = None \<and>
         out (snd (loggly_List_Exec env cl w)) =
           out w @ wr @ ''Version: '' @ fmt_d (Number sv) @ NL @ NL)"
  proof (intro conjI impI; elim conjE)
    assume m: "\<not> Verbose (Globals cl)" "\<not> loggly_ListCommand.json cl"
    from m show "fst (loggly_List_Exec env cl w) = None" by (intro run(1)) simp_all
    from m run(2) show "out (snd (loggly_List_Exec env cl w)) =
           out w @ wr @ Table_Print env [Header [CellS ''SERVICE'', CellS ''VERSION'', CellS ''NAME'']]" by simp
  next
    assume m: "Verbose (Globals cl)" "\<not> loggly_ListCommand.json cl"
    from m show "fst (loggly_List_Exec env cl w) = None" by (intro run(1)) simp_all
    from m run(2) show "out (snd (loggly_List_Exec env cl w)) =
           out w @ wr @ ''Version: '' @ fmt_d (Number sv) @ NL @ NL" by simp
  qed
qed



text \<open>
  Claim C9. For each of the three list commands, when the API returns an empty list the
  command still succeeds: in table mode it prints the table that holds the header row
  SERVICE, VERSION, NAME and no line; in verbose mode it prints the line \<open>Version: N\<close> and
  an empty line, with no block in between.
\<close>

theorem empty_list_output:
  "(ServiceDetails env (splunk_List_opts cs) = (Resolved sid sv, wr) \<and>
    ListSplunks env (splunk_List_input cs sid sv) = Inr [] \<longrightarrow>
      (\<not> Verbose (Globals cs) \<and> \<not> splunk_ListCommand.json cs \<longrightarrow>
         fst (splunk_List_Exec env cs w) = None \<and>
         out (snd (splunk_List_Exec env cs w)) =
           out w @ wr @ Table_Print env [Header [CellS ''SERVICE'', CellS ''VERSION'', CellS ''NAME'']])
    \<and> (Verbose (Globals cs) \<and> \<not> splunk_ListCommand.json cs \<longrightarrow>
         fst (splunk_List_Exec env cs w) = None \<and>
         out (snd (splunk_List_Exec env cs w)) =
           out w @ wr @ ''Version: '' @ fmt_d (Number sv) @ NL @ NL))
 \<and> (ServiceDetails env (datadog_List_opts cd) = (Resolved sid sv, wr) \<and>
    ListDatadog env (datadog_List_input cd sid sv) = Inr [] \<longrightarrow>
      (\<not> Verbose (Globals cd) \<and> \<not> datadog_ListCommand.json cd \<longrightarrow>
         fst (datadog_List_Exec env cd w) = None \<and>
         out (snd (datadog_List_Exec env cd w)) =
           out w @ wr @ Table_Print env [Header [CellS ''SERVICE'', CellS ''VERSION'', CellS ''NAME'']])
    \<and> (Verbose (Globals cd) \<and> \<not> datadog_ListCommand.json cd \<longrightarrow>
         fst (datadog_List_Exec env cd w) = None \<and>
         out (snd (datadog_List_Exec env cd w)) =
           out w @ wr @ ''Version: '' @ fmt_d (Number sv) @ NL @ NL))
 \<and> (ServiceDetails env (loggly_List_opts cl) = (Resolved sid sv, wr) \<and>
    ListLoggly env (loggly_List_input cl sid sv) = Inr [] \<longrightarrow>
      (\<not> Verbose (Globals cl) \<and> \<not> loggly_ListCommand.json cl \<longrightarrow>
         fst (loggly_List_Exec env cl w) = None \<and>
         out (snd (loggly_List_Exec env cl w)) =
           out w @ wr @ Table_Print env [Header [CellS ''SERVICE'', CellS ''VERSION'', CellS ''NAME'']])
    \<and> (Verbose (Globals cl) \<and> \<not> loggly_ListCommand.json cl \<longrightarrow>
         fst (loggly_List_Exec env cl w) = None \<and>
         out (snd (loggly_List_Exec env cl w)) =
           out w @ wr @ ''Version: '' @ fmt_d (Number sv) @ NL @ NL))"
proof (intro conjI, goal_cases)
  case 1
  show ?case by (rule splunk_List_empty)
next
  case 2
  show ?case by (rule datadog_List_empty)
next
  case 3
  show ?case by (rule loggly_List_empty)
qed

theorem empty_list_output_witness:
  "ListSplunks demo_no_endpoints (splunk_List_input demo_splunk_list ''svc1'' \<lparr>Number = 3\<rparr>) = Inr []
   \<and> fst (splunk_List_Exec demo_no_endpoints demo_splunk_list demo_world) = None
   \<and> out (snd (splunk_List_Exec demo_no_endpoints demo_splunk_list demo_world)) =
       Table_Print demo_no_endpoints [Header [CellS ''SERVICE'', CellS ''VERSION'', CellS ''NAME'']]
   \<and> fst (datadog_List_Exec demo_no_endpoints (demo_datadog_list\<lparr>Globals := \<lparr>Flag_Verbose = True\<rparr>\<rparr>) demo_world) = None
   \<and> out (snd (datadog_List_Exec demo_no_endpoints (demo_datadog_list\<lparr>Globals := \<lparr>Flag_Verbose = True\<rparr>\<rparr>) demo_world)) =
       ''Version: '' @ fmt_d 3 @ NL @ NL
   \<and> fst (loggly_List_Exec demo_no_endpoints (demo_loggly_list\<lparr>Globals := \<lparr>Flag_Verbose = True\<rparr>\<rparr>) demo_world) = None
   \<and> out (snd (loggly_List_Exec demo_no_endpoints (demo_loggly_list\<lparr>Globals := \<lparr>Flag_Verbose = True\<rparr>\<rparr>) demo_world)) =
       ''Version: '' @ fmt_d 3 @ NL @ NL"
  using empty_list_output
          [where env = demo_no_endpoints and w = demo_world and sid = "''svc1''"
             and sv = "\<lparr>Number = 3\<rparr>" and wr = "[]"
             and cs = demo_splunk_list
             and cd = "demo_datadog_list\<lparr>Globals := \<lparr>Flag_Verbose = True\<rparr>\<rparr>"
             and cl = "demo_loggly_list\<lparr>Globals := \<lparr>Flag_Verbose = True\<rparr>\<rparr>"]
  by (simp add: demo_no_endpoints_def demo_collaborators_def demo_splunk_list_def
        demo_datadog_list_def demo_loggly_list_def demo_world_def Verbose_def)

section \<open>What the FTP describe command prints\<close>

text \<open>
  Claim C10. The FTP describe command without \<open>--json\<close>, once the resolver has answered
  and \<open>GetFTP\<close> has returned the endpoint: the line \<open>Service ID:\<close> (with the empty line
  before it) is printed exactly when verbose mode is off; the sixteen lines from
  \<open>Version\<close> to \<open>Compression codec\<close> follow in both modes.
\<close>

theorem ftp_describe_plain_output:
  assumes "\<not> ftp_DescribeCommand.json c"
    and "ServiceDetails env (ftp_Describe_opts c) = (Resolved sid sv, wr)"
    and "GetFTP env (ftp_Describe_input c sid sv) = Inr ftp"
  shows "fst (ftp_Describe_Exec env c w) = None
       \<and> out (snd (ftp_Describe_Exec env c w)) =
           out w @ wr
             @ (if Verbose (Globals c) then [] else NL @ ''Service ID: '' @ FTP.ServiceID ftp @ NL)
             @ ''Version: '' @ fmt_d (FTP.ServiceVersion ftp) @ NL
             @ ''Name: '' @ FTP.Name ftp @ NL
             @ ''Address: '' @ FTP.Address ftp @ NL
             @ ''Port: '' @ decimal (FTP.Port ftp) @ NL
             @ ''Username: '' @ FTP.Username ftp @ NL
             @ ''Password: '' @ FTP.Password ftp @ NL
             @ ''Public key: '' @ FTP.PublicKey ftp @ NL
             @ ''Path: '' @ FTP.Path ftp @ NL
             @ ''Period: '' @ decimal (FTP.Period ftp) @ NL
             @ ''GZip level: '' @ decimal (FTP.GzipLevel ftp) @ NL
             @ ''Format: '' @ FTP.Format ftp @ NL
             @ ''Format version: '' @ decimal (FTP.FormatVersion ftp) @ NL
             @ ''Response condition: '' @ FTP.ResponseCondition ftp @ NL
             @ ''Timestamp format: '' @ FTP.TimestampFormat ftp @ NL
             @ ''Placement: '' @ FTP.Placement ftp @ NL
             @ ''Compression codec: '' @ FTP.CompressionCodec ftp @ NL"
proof -
  from assms(1) have gate: "\<not> (Verbose (Globals c) \<and> ftp_DescribeCommand.json c)"
    by simp
  show ?thesis
    unfolding ftp_Describe_ok[OF gate assms(2,3)]
    using assms(1)
    by (simp add: Let_def ftp_field_lines_def ftp_service_line_def)
qed

theorem ftp_describe_plain_output_witness:
  "\<not> ftp_DescribeCommand.json demo_ftp_describe
   \<and> GetFTP demo_collaborators (ftp_Describe_input demo_ftp_describe ''svc1'' \<lparr>Number = 3\<rparr>) = Inr demo_ftp
   \<and> fst (ftp_Describe_Exec demo_collaborators demo_ftp_describe demo_world) = None
   \<and> out (snd (ftp_Describe_Exec demo_collaborators demo_ftp_describe demo_world)) =
       NL @ ''Service ID: svc1'' @ NL @ ftp_field_lines demo_ftp
   \<and> out (snd (ftp_Describe_Exec demo_collaborators (demo_ftp_describe\<lparr>Globals := \<lparr>Flag_Verbose = True\<rparr>\<rparr>) demo_world)) =
       ftp_field_lines demo_ftp"
  using ftp_describe_plain_output
          [where c = demo_ftp_describe and env = demo_collaborators and w = demo_world
             and sid = "''svc1''" and sv = "\<lparr>Number = 3\<rparr>" and wr = "[]" and ftp = demo_ftp]
        ftp_describe_plain_output
          [where c = "demo_ftp_describe\<lparr>Globals := \<lparr>Flag_Verbose = True\<rparr>\<rparr>" and env = demo_collaborators and w = demo_world
             and sid = "''svc1''" and sv = "\<lparr>Number = 3\<rparr>" and wr = "[]" and ftp = demo_ftp]
  by (simp add: demo_collaborators_def demo_ftp_describe_def demo_world_def Verbose_def
        ftp_field_lines_def demo_ftp_def)

end
